theory Spec2Isabelle
  imports Main
begin

section \<open>JavaScript values\<close>

text \<open>
  Response payloads, request bodies and query parameters are JSON-like JavaScript
  values. Numbers are restricted to integers; no modelled branch computes with them.
\<close>

datatype jsval =
    JUndefined
  | JNull
  | JBool bool
  | JNum int
  | JStr string
  | JArr "jsval list"
  | JObj "(string \<times> jsval) list"

text \<open>The test \<^verbatim>\<open>if (v)\<close>: undefined, null, false, 0 and the empty string are falsy.\<close>

fun truthy :: "jsval \<Rightarrow> bool" where
  "truthy JUndefined = False"
| "truthy JNull = False"
| "truthy (JBool b) = b"
| "truthy (JNum n) = (n \<noteq> 0)"
| "truthy (JStr s) = (s \<noteq> [])"
| "truthy (JArr xs) = True"
| "truthy (JObj fs) = True"

text \<open>
  Property read \<^verbatim>\<open>v.name\<close>: a TypeError on undefined and null (\<open>None\<close> here), the
  field of an object, and undefined on an object without the field and on every
  other value.
\<close>

fun get_prop :: "jsval \<Rightarrow> string \<Rightarrow> jsval option" where
  "get_prop JUndefined name = None"
| "get_prop JNull name = None"
| "get_prop (JObj fs) name =
     (case map_of fs name of None \<Rightarrow> Some JUndefined | Some v \<Rightarrow> Some v)"
| "get_prop v name = Some JUndefined"

text \<open>Optional chaining \<^verbatim>\<open>v?.name\<close>: undefined where the plain read would throw.\<close>

definition get_prop_opt :: "jsval \<Rightarrow> string \<Rightarrow> jsval" where
  "get_prop_opt v name = (case get_prop v name of None \<Rightarrow> JUndefined | Some x \<Rightarrow> x)"

fun digit_char :: "nat \<Rightarrow> char" where
  "digit_char n = char_of (48 + n)"

fun digits :: "nat \<Rightarrow> string" where
  "digits n = (if n < 10 then [digit_char n] else digits (n div 10) @ [digit_char (n mod 10)])"

definition int_string :: "int \<Rightarrow> string" where
  "int_string i = (if i < 0 then CHR ''-'' # digits (nat (- i)) else digits (nat i))"

fun join :: "string \<Rightarrow> string list \<Rightarrow> string" where
  "join sep [] = []"
| "join sep [x] = x"
| "join sep (x # y # ys) = x @ sep @ join sep (y # ys)"

text \<open>
  \<^verbatim>\<open>String(v)\<close>, the conversion a template literal and \<^verbatim>\<open>localStorage.setItem\<close>
  apply to a value.
\<close>

fun js_string :: "jsval \<Rightarrow> string" where
  "js_string JUndefined = ''undefined''"
| "js_string JNull = ''null''"
| "js_string (JBool b) = (if b then ''true'' else ''false'')"
| "js_string (JNum n) = int_string n"
| "js_string (JStr s) = s"
| "js_string (JArr xs) =
     join '','' (map (\<lambda>x. if x = JUndefined \<or> x = JNull then [] else js_string x) xs)"
| "js_string (JObj fs) = ''[object Object]''"

section \<open>Strings\<close>

fun starts_with :: "string \<Rightarrow> string \<Rightarrow> bool" where
  "starts_with s [] = True"
| "starts_with [] (p # ps) = False"
| "starts_with (c # cs) (p # ps) = (c = p \<and> starts_with cs ps)"

text \<open>\<^verbatim>\<open>s.includes(p)\<close>: \<open>p\<close> occurs in \<open>s\<close> as a contiguous substring.\<close>

fun includes_str :: "string \<Rightarrow> string \<Rightarrow> bool" where
  "includes_str [] p = (p = [])"
| "includes_str (c # cs) p = (starts_with (c # cs) p \<or> includes_str cs p)"

text \<open>\<^verbatim>\<open>s.split(sep)\<close> for a one-character separator; the result is never empty.\<close>

fun split_on :: "char \<Rightarrow> string \<Rightarrow> string list" where
  "split_on sep [] = [[]]"
| "split_on sep (c # cs) =
     (if c = sep then [] # split_on sep cs
      else (case split_on sep cs of [] \<Rightarrow> [[c]] | p # ps \<Rightarrow> (c # p) # ps))"

section \<open>Requests, answers, errors\<close>

datatype http_method = GET | POST | PUT | DELETE

text \<open>
  The request configuration axios works on. \<open>retry\<close> is the \<^verbatim>\<open>_retry\<close> marker,
  \<open>authorization\<close> the Authorization header. The request id and timestamp headers
  the request interceptor adds are not carried: nothing reads them.
\<close>

record request =
  req_method :: http_method
  req_url :: string
  req_data :: jsval
  req_params :: jsval
  authorization :: "string option"
  retry :: bool

record response =
  resp_status :: int
  resp_data :: jsval

text \<open>
  What the network gives back for one request: a status and body when the server
  answered, the error code and message axios attaches when it rejects, and the time
  the exchange took in milliseconds.
\<close>

record answer =
  ans_status :: "int option"
  ans_data :: jsval
  ans_code :: string
  ans_message :: string
  ans_took :: nat

text \<open>The error axios rejects with: \<^verbatim>\<open>error.config\<close>, \<^verbatim>\<open>error.response\<close>, code, message.\<close>

record http_error =
  err_config :: request
  err_status :: "int option"
  err_data :: jsval
  err_code :: string
  err_message :: string

datatype error = Http http_error | TypeError string

type_synonym 'a result = "error + 'a"

section \<open>The world the client runs in\<close>

record cache_entry =
  data :: jsval
  timestamp :: int

datatype event =
    Api_Sent request
  | Axios_Sent request
  | Slept int
  | Toast string

text \<open>
  \<open>cache\<close> is the module's \<^verbatim>\<open>Map\<close>, \<open>storage\<close> is \<^verbatim>\<open>localStorage\<close>, \<open>location\<close> is
  \<^verbatim>\<open>window.location.href\<close>, \<open>clock\<close> is \<^verbatim>\<open>Date.now()\<close>, and \<open>trace\<close> records in order
  every request put on the network (through the configured instance or through
  plain axios), every timer wait and every toast.
\<close>

record world =
  cache :: "string \<rightharpoonup> cache_entry"
  storage :: "string \<rightharpoonup> string"
  location :: string
  clock :: int
  trace :: "event list"

text \<open>
  The remote service: its answer to a request, given how many requests were sent
  before it.
\<close>

type_synonym server = "nat \<Rightarrow> request \<Rightarrow> answer"

fun is_sent :: "event \<Rightarrow> bool" where
  "is_sent (Api_Sent r) = True"
| "is_sent (Axios_Sent r) = True"
| "is_sent e = False"

definition sent_count :: "world \<Rightarrow> nat" where
  "sent_count w = length (filter is_sent (trace w))"

definition emit :: "event \<Rightarrow> world \<Rightarrow> world" where
  "emit e w = w\<lparr>trace := trace w @ [e]\<rparr>"

text \<open>\<^verbatim>\<open>localStorage.getItem\<close> returns null for a missing key.\<close>

definition getItem :: "world \<Rightarrow> string \<Rightarrow> jsval" where
  "getItem w k = (case storage w k of None \<Rightarrow> JNull | Some v \<Rightarrow> JStr v)"

definition setItem :: "string \<Rightarrow> string \<Rightarrow> world \<Rightarrow> world" where
  "setItem k v w = w\<lparr>storage := (storage w)(k \<mapsto> v)\<rparr>"

definition removeItem :: "string \<Rightarrow> world \<Rightarrow> world" where
  "removeItem k w = w\<lparr>storage := (storage w)(k := None)\<rparr>"

section \<open>Cache\<close>

definition CACHE_DURATION :: int where
  "CACHE_DURATION = 5 * 60 * 1000"

text \<open>
  \<^verbatim>\<open>getCachedData\<close>: the stored data while the entry is younger than
  \<open>CACHE_DURATION\<close>; otherwise the key is deleted and null returned.
\<close>

definition getCachedData :: "string \<Rightarrow> world \<Rightarrow> jsval \<times> world" where
  "getCachedData key w =
     (case cache w key of
        Some cached \<Rightarrow>
          if clock w - timestamp cached < CACHE_DURATION then (data cached, w)
          else (JNull, w\<lparr>cache := (cache w)(key := None)\<rparr>)
      | None \<Rightarrow> (JNull, w\<lparr>cache := (cache w)(key := None)\<rparr>))"

definition setCachedData :: "string \<Rightarrow> jsval \<Rightarrow> world \<Rightarrow> world" where
  "setCachedData key d w =
     w\<lparr>cache := (cache w)(key \<mapsto> \<lparr>data = d, timestamp = clock w\<rparr>)\<rparr>"

section \<open>Transport and interceptors\<close>

text \<open>
  One exchange with the network: the server's answer for the request, the event
  recorded, the clock advanced by the time the exchange took.
\<close>

definition send :: "server \<Rightarrow> (request \<Rightarrow> event) \<Rightarrow> request \<Rightarrow> world \<Rightarrow> answer \<times> world" where
  "send srv ev config w =
     (let a = srv (sent_count w) config
      in (a, (emit (ev config) w)\<lparr>clock := clock w + int (ans_took a)\<rparr>))"

text \<open>
  How axios settles an exchange (its default \<^verbatim>\<open>validateStatus\<close>): a status from 200
  to 299 resolves with the response, any other status rejects with an error carrying
  the response, and no answer at all rejects with an error that has no response.
\<close>

definition settle :: "request \<Rightarrow> answer \<Rightarrow> http_error + response" where
  "settle config a =
     (case ans_status a of
        Some s \<Rightarrow>
          if 200 \<le> s \<and> s < 300 then Inr \<lparr>resp_status = s, resp_data = ans_data a\<rparr>
          else Inl \<lparr>err_config = config, err_status = Some s, err_data = ans_data a,
                    err_code = ans_code a, err_message = ans_message a\<rparr>
      | None \<Rightarrow>
          Inl \<lparr>err_config = config, err_status = None, err_data = JUndefined,
               err_code = ans_code a, err_message = ans_message a\<rparr>)"

text \<open>The request interceptor: the bearer token of \<^verbatim>\<open>localStorage\<close>, when there is one.\<close>

definition request_interceptor :: "world \<Rightarrow> request \<Rightarrow> request" where
  "request_interceptor w config =
     (let token = getItem w ''adminToken''
      in if truthy token then config\<lparr>authorization := Some (''Bearer '' @ js_string token)\<rparr>
         else config)"

definition handleAuthFailure :: "world \<Rightarrow> world" where
  "handleAuthFailure w =
     (removeItem ''refreshToken'' (removeItem ''adminUser'' (removeItem ''adminToken'' w)))
       \<lparr>location := ''/login''\<rparr>"

text \<open>\<^verbatim>\<open>error.response?.data?.message || error.message\<close>\<close>

definition error_message :: "http_error \<Rightarrow> jsval" where
  "error_message err =
     (let m = get_prop_opt (err_data err) ''message''
      in if truthy m then m else JStr (err_message err))"

text \<open>The text the status switch hands to \<^verbatim>\<open>toast.error\<close>.\<close>

definition toast_text :: "http_error \<Rightarrow> string" where
  "toast_text err =
     (let status = err_status err; message = js_string (error_message err)
      in if status = Some 400 then ''Bad Request: '' @ message
         else if status = Some 401 then ''Session expired. Please login again.''
         else if status = Some 403 then ''Access denied. Insufficient permissions.''
         else if status = Some 404 then ''Resource not found.''
         else if status = Some 409 then ''Conflict: '' @ message
         else if status = Some 422 then ''Validation Error: '' @ message
         else if status = Some 429 then ''Too many requests. Please wait and try again.''
         else if status = Some 500 then ''Server error. Please try again later.''
         else if status = Some 502 \<or> status = Some 503 \<or> status = Some 504
           then ''Service unavailable. Please try again later.''
         else if err_code err = ''ECONNABORTED''
           then ''Request timeout. Please check your connection.''
         else if err_code err = ''ERR_NETWORK''
           then ''Network error. Please check your connection.''
         else ''An error occurred: '' @ message)"

text \<open>
  The second half of the response error handler: one toast by status, the session
  cleared on 401, and the error rejected as it came.
\<close>

definition error_handling :: "http_error \<Rightarrow> world \<Rightarrow> 'a result \<times> world" where
  "error_handling err w =
     (let w1 = emit (Toast (toast_text err)) w
      in (Inl (Http err), if err_status err = Some 401 then handleAuthFailure w1 else w1))"

text \<open>A request through plain axios: no interceptor runs.\<close>

definition axios_post :: "server \<Rightarrow> string \<Rightarrow> jsval \<Rightarrow> world \<Rightarrow> response result \<times> world" where
  "axios_post srv u body w =
     (let config = \<lparr>req_method = POST, req_url = u, req_data = body, req_params = JUndefined,
                     authorization = None, retry = False\<rparr>
      in case send srv Axios_Sent config w of
           (a, w1) \<Rightarrow>
             (case settle config a of
                Inl err \<Rightarrow> (Inl (Http err), w1)
              | Inr response \<Rightarrow> (Inr response, w1)))"

text \<open>
  A request through the configured instance \<^verbatim>\<open>api\<close>: the request interceptor, the
  exchange, and the response interceptor. On a 401 for a request without the retry
  marker the error handler sets the marker and, when a refresh token is stored, posts
  it to \<^verbatim>\<open>/auth/refresh\<close>, stores the new token and sends the request again through
  \<^verbatim>\<open>api\<close>; a failure inside the \<^verbatim>\<open>try\<close> block (the refresh call rejecting, or the token
  read on a null body) clears the session and rejects with that failure. The re-sent
  request is returned without \<^verbatim>\<open>await\<close>, so its rejection is not caught there.
\<close>

function api :: "server \<Rightarrow> request \<Rightarrow> world \<Rightarrow> response result \<times> world" where
  "api srv req w =
     (let config = request_interceptor w req
      in case send srv Api_Sent config w of
           (a, w1) \<Rightarrow>
             (case settle config a of
                Inr response \<Rightarrow> (Inr response, w1)
              | Inl err \<Rightarrow>
                  if err_status err = Some 401 \<and> \<not> retry config then
                    (let originalRequest = config\<lparr>retry := True\<rparr>;
                         error = err\<lparr>err_config := originalRequest\<rparr>;
                         refreshToken = getItem w1 ''refreshToken''
                     in if truthy refreshToken then
                          (case axios_post srv ''/auth/refresh''
                                  (JObj [(''refreshToken'', refreshToken)]) w1 of
                             (Inl refreshError, w2) \<Rightarrow> (Inl refreshError, handleAuthFailure w2)
                           | (Inr response, w2) \<Rightarrow>
                               (case get_prop (resp_data response) ''token'' of
                                  None \<Rightarrow> (Inl (TypeError ''token''), handleAuthFailure w2)
                                | Some newToken \<Rightarrow>
                                    api srv
                                      (originalRequest
                                         \<lparr>authorization := Some (''Bearer '' @ js_string newToken)\<rparr>)
                                      (setItem ''adminToken'' (js_string newToken) w2)))
                        else error_handling error w1)
                  else error_handling err w1))"
  by pat_completeness auto

termination api
  by (relation "measure (\<lambda>(srv, req, w). if retry req then 0 else 1)")
     (auto simp: request_interceptor_def Let_def split: if_splits)

declare api.simps [simp del]

text \<open>\<^verbatim>\<open>api.get\<close>, \<^verbatim>\<open>api.post\<close>, \<^verbatim>\<open>api.put\<close>, \<^verbatim>\<open>api.delete\<close>: the request each one builds.\<close>

record config =
  cfg_params :: jsval
  cfg_skipCache :: bool
  cfg_maxRetries :: "int option"

definition api_request :: "http_method \<Rightarrow> string \<Rightarrow> jsval \<Rightarrow> config \<Rightarrow> request" where
  "api_request m u body cfg =
     \<lparr>req_method = m, req_url = u, req_data = body, req_params = cfg_params cfg,
      authorization = None, retry = False\<rparr>"

section \<open>Retry\<close>

text \<open>\<^verbatim>\<open>await new Promise(resolve => setTimeout(resolve, waitTime))\<close>\<close>

definition sleep :: "int \<Rightarrow> world \<Rightarrow> world" where
  "sleep waitTime w = (emit (Slept waitTime) w)\<lparr>clock := clock w + max 0 waitTime\<rparr>"

text \<open>
  The loop of \<^verbatim>\<open>retryRequest\<close> from index \<open>i\<close> on. A response is returned as
  \<open>Inr (Some r)\<close>; falling out of the loop returns undefined, \<open>Inr None\<close>.
\<close>

function retryRequest_loop ::
  "(world \<Rightarrow> response result \<times> world) \<Rightarrow> int \<Rightarrow> int \<Rightarrow> int \<Rightarrow> world
     \<Rightarrow> response option result \<times> world" where
  "retryRequest_loop requestFunc maxRetries delay i w =
     (if i < maxRetries then
        (case requestFunc w of
           (Inr r, w1) \<Rightarrow> (Inr (Some r), w1)
         | (Inl error, w1) \<Rightarrow>
             if i = maxRetries - 1 then (Inl error, w1)
             else retryRequest_loop requestFunc maxRetries delay (i + 1)
                    (sleep (delay * 2 ^ nat i) w1))
      else (Inr None, w))"
  by pat_completeness auto

termination retryRequest_loop
  by (relation "measure (\<lambda>(requestFunc, maxRetries, delay, i, w). nat (maxRetries - i))") auto

declare retryRequest_loop.simps [simp del]

text \<open>The default parameters apply where the argument is undefined (\<open>None\<close>).\<close>

definition retryRequest ::
  "(world \<Rightarrow> response result \<times> world) \<Rightarrow> int option \<Rightarrow> int option \<Rightarrow> world
     \<Rightarrow> response option result \<times> world" where
  "retryRequest requestFunc maxRetries delay w =
     retryRequest_loop requestFunc
       (case maxRetries of None \<Rightarrow> 3 | Some m \<Rightarrow> m)
       (case delay of None \<Rightarrow> 1000 | Some d \<Rightarrow> d) 0 w"

section \<open>The API wrapper\<close>

text \<open>
  \<^verbatim>\<open>JSON.stringify\<close> is taken as a parameter. The cache key is
  \<^verbatim>\<open>`GET_${url}_${JSON.stringify(config.params || {})}`\<close>.
\<close>

definition cacheKey :: "(jsval \<Rightarrow> string) \<Rightarrow> string \<Rightarrow> config \<Rightarrow> string" where
  "cacheKey stringify u cfg =
     ''GET_'' @ u @ ''_'' @ stringify (if truthy (cfg_params cfg) then cfg_params cfg else JObj [])"

text \<open>
  The second half of \<^verbatim>\<open>apiWrapper.get\<close>: the request through \<^verbatim>\<open>api\<close>, the payload
  stored when the status is 200 and \<open>skipCache\<close> is unset, and the payload returned.
\<close>

definition fetch_get ::
  "string \<Rightarrow> server \<Rightarrow> string \<Rightarrow> config \<Rightarrow> world \<Rightarrow> jsval result \<times> world" where
  "fetch_get key srv u cfg w =
     (case api srv (api_request GET u JUndefined cfg) w of
        (Inl e, w2) \<Rightarrow> (Inl e, w2)
      | (Inr response, w2) \<Rightarrow>
          (Inr (resp_data response),
           if resp_status response = 200 \<and> \<not> cfg_skipCache cfg
           then setCachedData key (resp_data response) w2 else w2))"

definition apiWrapper_get ::
  "(jsval \<Rightarrow> string) \<Rightarrow> server \<Rightarrow> string \<Rightarrow> config \<Rightarrow> world \<Rightarrow> jsval result \<times> world" where
  "apiWrapper_get stringify srv u cfg w =
     (let key = cacheKey stringify u cfg
      in if \<not> cfg_skipCache cfg then
           (case getCachedData key w of
              (cached, w1) \<Rightarrow>
                if truthy cached then (Inr cached, w1) else fetch_get key srv u cfg w1)
         else fetch_get key srv u cfg w)"

text \<open>
  \<^verbatim>\<open>apiWrapper.post\<close>: \<^verbatim>\<open>response.data\<close> of an undefined response is a TypeError.
\<close>

definition apiWrapper_post ::
  "server \<Rightarrow> string \<Rightarrow> jsval \<Rightarrow> config \<Rightarrow> world \<Rightarrow> jsval result \<times> world" where
  "apiWrapper_post srv u body cfg w =
     (case retryRequest (api srv (api_request POST u body cfg)) (cfg_maxRetries cfg) None w of
        (Inl e, w1) \<Rightarrow> (Inl e, w1)
      | (Inr None, w1) \<Rightarrow> (Inl (TypeError ''data''), w1)
      | (Inr (Some response), w1) \<Rightarrow> (Inr (resp_data response), w1))"

text \<open>
  The loop \<^verbatim>\<open>for (const [key] of cache) if (key.includes(p)) cache.delete(key)\<close>.
\<close>

definition delete_including :: "string \<Rightarrow> world \<Rightarrow> world" where
  "delete_including p w =
     w\<lparr>cache := (\<lambda>key. if includes_str key p then None else cache w key)\<rparr>"

text \<open>
  \<^verbatim>\<open>url.split('/')[0]\<close> and \<^verbatim>\<open>url.split('/').pop()\<close>; on an empty array both are
  undefined, which \<^verbatim>\<open>includes\<close> would read as the string \<^verbatim>\<open>undefined\<close>.
\<close>

definition first_segment :: "string \<Rightarrow> string" where
  "first_segment u = (case split_on CHR ''/'' u of [] \<Rightarrow> ''undefined'' | p # ps \<Rightarrow> p)"

definition last_segment :: "string \<Rightarrow> string" where
  "last_segment u = (case rev (split_on CHR ''/'' u) of [] \<Rightarrow> ''undefined'' | p # ps \<Rightarrow> p)"

definition apiWrapper_put ::
  "server \<Rightarrow> string \<Rightarrow> jsval \<Rightarrow> config \<Rightarrow> world \<Rightarrow> jsval result \<times> world" where
  "apiWrapper_put srv u body cfg w =
     (case api srv (api_request PUT u body cfg) w of
        (Inl e, w1) \<Rightarrow> (Inl e, w1)
      | (Inr response, w1) \<Rightarrow>
          (let urlPattern = first_segment u
           in (Inr (resp_data response), delete_including urlPattern w1)))"

definition apiWrapper_delete ::
  "server \<Rightarrow> string \<Rightarrow> config \<Rightarrow> world \<Rightarrow> jsval result \<times> world" where
  "apiWrapper_delete srv u cfg w =
     (case api srv (api_request DELETE u JUndefined cfg) w of
        (Inl e, w1) \<Rightarrow> (Inl e, w1)
      | (Inr response, w1) \<Rightarrow>
          (let resourceId = last_segment u
           in (Inr (resp_data response), delete_including resourceId w1)))"

section \<open>The session store of AuthContext\<close>

record auth_state =
  isAuthenticated :: bool
  auth_user :: jsval
  auth_token :: jsval

definition login ::
  "(jsval \<Rightarrow> string) \<Rightarrow> jsval \<Rightarrow> jsval \<Rightarrow> auth_state \<times> world \<Rightarrow> auth_state \<times> world" where
  "login stringify newToken userData sw =
     (\<lparr>isAuthenticated = True, auth_user = userData, auth_token = newToken\<rparr>,
      setItem ''adminUser'' (stringify userData)
        (setItem ''adminToken'' (js_string newToken) (snd sw)))"

definition logout :: "auth_state \<times> world \<Rightarrow> auth_state \<times> world" where
  "logout sw =
     (\<lparr>isAuthenticated = False, auth_user = JNull, auth_token = JNull\<rparr>,
      removeItem ''adminUser'' (removeItem ''adminToken'' (snd sw)))"

section \<open>Vocabulary for the properties\<close>

text \<open>
  A request that already carries the retry marker makes one exchange and runs the
  status switch on a failure; \<open>api_final\<close> names that behaviour.
\<close>

definition api_final :: "server \<Rightarrow> request \<Rightarrow> world \<Rightarrow> response result \<times> world" where
  "api_final srv req w =
     (let config = request_interceptor w req
      in case send srv Api_Sent config w of
           (a, w1) \<Rightarrow>
             (case settle config a of
                Inr response \<Rightarrow> (Inr response, w1)
              | Inl err \<Rightarrow> error_handling err w1))"

text \<open>The events a step from \<open>w\<close> to \<open>w'\<close> appended to the trace.\<close>

definition new_events :: "world \<Rightarrow> world \<Rightarrow> event list" where
  "new_events w w' = drop (length (trace w)) (trace w')"

subsection \<open>Concrete worlds and servers\<close>

definition world0 :: world where
  "world0 = \<lparr>cache = Map.empty, storage = Map.empty, location = ''/'', clock = 0, trace = []\<rparr>"

text \<open>A logged-in browser: token, user and refresh token in \<^verbatim>\<open>localStorage\<close>.\<close>

definition world1 :: world where
  "world1 = world0\<lparr>storage := [''adminToken'' \<mapsto> ''t1'', ''adminUser'' \<mapsto> ''admin'',
                                  ''refreshToken'' \<mapsto> ''r1'']\<rparr>"

definition config0 :: config where
  "config0 = \<lparr>cfg_params = JUndefined, cfg_skipCache = False, cfg_maxRetries = None\<rparr>"

text \<open>A server answer with a status and a body, taking 20 ms.\<close>

definition reply :: "int \<Rightarrow> jsval \<Rightarrow> answer" where
  "reply s d =
     \<lparr>ans_status = Some s, ans_data = d, ans_code = ''ERR_BAD_RESPONSE'',
      ans_message = ''Request failed'', ans_took = 20\<rparr>"

text \<open>A server that answers the first requests from a list and every later one alike.\<close>

definition script :: "answer list \<Rightarrow> answer \<Rightarrow> server" where
  "script answers final n req = (if n < length answers then answers ! n else final)"

text \<open>
  \<^verbatim>\<open>JSON.stringify\<close> on the only value the concrete runs below serialise, the empty
  object of a request without query parameters.
\<close>

definition json0 :: "jsval \<Rightarrow> string" where
  "json0 v = ''{}''"

subsection \<open>Retry, in the words of the specification\<close>

text \<open>
  The outcome of attempt \<open>i\<close> (counted from 0) in a run where every earlier attempt
  failed: attempt 0 runs at once, and attempt \<open>i \<ge> 1\<close> runs after a wait of
  \<open>delay * 2^(i-1)\<close> that follows attempt \<open>i - 1\<close>.
\<close>

fun attempt ::
  "(world \<Rightarrow> response result \<times> world) \<Rightarrow> int \<Rightarrow> nat \<Rightarrow> world \<Rightarrow> response result \<times> world" where
  "attempt f d 0 w = f w"
| "attempt f d (Suc i) w = f (sleep (d * 2 ^ i) (snd (attempt f d i w)))"

text \<open>An outcome of the operation as the outcome of the helper.\<close>

definition lift_outcome :: "response result \<times> world \<Rightarrow> response option result \<times> world" where
  "lift_outcome p = (case p of (Inl e, w) \<Rightarrow> (Inl e, w) | (Inr r, w) \<Rightarrow> (Inr (Some r), w))"

subsection \<open>The steps of a call through the response interceptor\<close>

text \<open>The request the refresh branch posts through plain axios.\<close>

definition refresh_request :: "jsval \<Rightarrow> request" where
  "refresh_request refreshToken =
     \<lparr>req_method = POST, req_url = ''/auth/refresh'',
      req_data = JObj [(''refreshToken'', refreshToken)], req_params = JUndefined,
      authorization = None, retry = False\<rparr>"

text \<open>Kinds of events; a refresh attempt is the one request sent through plain axios.\<close>

fun is_api_sent :: "event \<Rightarrow> bool" where
  "is_api_sent (Api_Sent r) = True"
| "is_api_sent e = False"

fun is_axios_sent :: "event \<Rightarrow> bool" where
  "is_axios_sent (Axios_Sent r) = True"
| "is_axios_sent e = False"

fun is_toast :: "event \<Rightarrow> bool" where
  "is_toast (Toast t) = True"
| "is_toast e = False"

text \<open>
  The \<^verbatim>\<open>catch\<close> block of the refresh branch is reached: the call was answered 401
  without the marker, a refresh token is stored, and the refresh call is rejected or
  its body is null or undefined.
\<close>

definition refresh_fails :: "server \<Rightarrow> request \<Rightarrow> world \<Rightarrow> bool" where
  "refresh_fails srv req w =
     (\<not> retry req \<and>
      ans_status (srv (sent_count w) (request_interceptor w req)) = Some 401 \<and>
      truthy (getItem w ''refreshToken'') \<and>
      (case settle (refresh_request (getItem w ''refreshToken''))
              (srv (Suc (sent_count w)) (refresh_request (getItem w ''refreshToken''))) of
         Inl e \<Rightarrow> True
       | Inr r \<Rightarrow> get_prop (resp_data r) ''token'' = None))"

text \<open>
  The world after the first exchange of a call, after the refresh exchange, and after
  the exchange of the request sent again with the marker and the new token.
\<close>

definition sent1 :: "server \<Rightarrow> request \<Rightarrow> world \<Rightarrow> world" where
  "sent1 srv req w = snd (send srv Api_Sent (request_interceptor w req) w)"

definition sent2 :: "server \<Rightarrow> request \<Rightarrow> world \<Rightarrow> world" where
  "sent2 srv req w =
     snd (send srv Axios_Sent (refresh_request (getItem w ''refreshToken'')) (sent1 srv req w))"

definition retried_request :: "world \<Rightarrow> request \<Rightarrow> jsval \<Rightarrow> request" where
  "retried_request w req newToken =
     (request_interceptor w req)
       \<lparr>retry := True, authorization := Some (''Bearer '' @ js_string newToken)\<rparr>"

definition sent3 :: "server \<Rightarrow> request \<Rightarrow> world \<Rightarrow> jsval \<Rightarrow> world" where
  "sent3 srv req w newToken =
     snd (send srv Api_Sent (retried_request w req newToken)
            (setItem ''adminToken'' (js_string newToken) (sent2 srv req w)))"

subsection \<open>The status table, in the words of the specification\<close>

datatype kind =
    BadRequest | Unauthorized | Forbidden | NotFound | Conflict | Validation | RateLimited
  | ServerError | ServiceUnavailable | Timeout | NetworkError | Unknown

text \<open>The table of the specification from status and transport error code to kind.\<close>

definition spec_kind :: "int option \<Rightarrow> string \<Rightarrow> kind" where
  "spec_kind status code =
     (if status = Some 400 then BadRequest
      else if status = Some 401 then Unauthorized
      else if status = Some 403 then Forbidden
      else if status = Some 404 then NotFound
      else if status = Some 409 then Conflict
      else if status = Some 422 then Validation
      else if status = Some 429 then RateLimited
      else if status = Some 500 then ServerError
      else if status = Some 502 \<or> status = Some 503 \<or> status = Some 504 then ServiceUnavailable
      else if code = ''ECONNABORTED'' then Timeout
      else if code = ''ERR_NETWORK'' then NetworkError
      else Unknown)"

text \<open>
  The code has no value for a kind: it shows in the toast it raises. This is the
  message of each branch of the switch, named by the kind the branch stands for.
\<close>

fun kind_message :: "kind \<Rightarrow> string \<Rightarrow> string" where
  "kind_message BadRequest m = ''Bad Request: '' @ m"
| "kind_message Unauthorized m = ''Session expired. Please login again.''"
| "kind_message Forbidden m = ''Access denied. Insufficient permissions.''"
| "kind_message NotFound m = ''Resource not found.''"
| "kind_message Conflict m = ''Conflict: '' @ m"
| "kind_message Validation m = ''Validation Error: '' @ m"
| "kind_message RateLimited m = ''Too many requests. Please wait and try again.''"
| "kind_message ServerError m = ''Server error. Please try again later.''"
| "kind_message ServiceUnavailable m = ''Service unavailable. Please try again later.''"
| "kind_message Timeout m = ''Request timeout. Please check your connection.''"
| "kind_message NetworkError m = ''Network error. Please check your connection.''"
| "kind_message Unknown m = ''An error occurred: '' @ m"

subsection \<open>Persisted session state\<close>

text \<open>What \<open>handleAuthFailure\<close> leaves of \<^verbatim>\<open>localStorage\<close>.\<close>

definition cleared :: "(string \<rightharpoonup> string) \<Rightarrow> (string \<rightharpoonup> string)" where
  "cleared s = s(''adminToken'' := None, ''adminUser'' := None, ''refreshToken'' := None)"

section \<open>The string helpers mean what they say\<close>

lemma starts_with_iff: "starts_with s p \<longleftrightarrow> (\<exists>b. s = p @ b)"
  by (induction s p rule: starts_with.induct) auto

lemma includes_str_iff: "includes_str s p \<longleftrightarrow> (\<exists>a b. s = a @ p @ b)"
proof (induction s)
  case Nil
  then show ?case by simp
next
  case (Cons c cs)
  show ?case
  proof
    assume "includes_str (c # cs) p"
    then consider "starts_with (c # cs) p" | "includes_str cs p" by auto
    then show "\<exists>a b. c # cs = a @ p @ b"
    proof cases
      case 1
      then obtain b where "c # cs = p @ b" using starts_with_iff by blast
      then have "c # cs = [] @ p @ b" by simp
      then show ?thesis by blast
    next
      case 2
      then obtain a b where "cs = a @ p @ b" using Cons.IH by blast
      then have "c # cs = (c # a) @ p @ b" by simp
      then show ?thesis by blast
    qed
  next
    assume "\<exists>a b. c # cs = a @ p @ b"
    then obtain a b where ab: "c # cs = a @ p @ b" by blast
    show "includes_str (c # cs) p"
    proof (cases a)
      case Nil
      with ab have "starts_with (c # cs) p" using starts_with_iff by auto
      then show ?thesis by simp
    next
      case (Cons x xs)
      with ab have "cs = xs @ p @ b" by simp
      then have "includes_str cs p" using Cons.IH by blast
      then show ?thesis by simp
    qed
  qed
qed

lemma split_on_not_Nil [simp]: "split_on sep s \<noteq> []"
  by (induction s) (auto split: list.splits)

lemma split_on_join: "join [sep] (split_on sep s) = s"
proof (induction s)
  case Nil
  then show ?case by simp
next
  case (Cons c cs)
  obtain p ps where sp: "split_on sep cs = p # ps"
    using split_on_not_Nil by (cases "split_on sep cs") auto
  show ?case using Cons sp by (cases ps) auto
qed

lemma split_on_no_sep: "p \<in> set (split_on sep s) \<Longrightarrow> sep \<notin> set p"
  by (induction s arbitrary: p) (auto split: list.splits if_splits)

section \<open>Basic facts\<close>

lemma retry_request_interceptor [simp]: "retry (request_interceptor w req) = retry req"
  by (simp add: request_interceptor_def Let_def)

lemma api_marked: "retry req \<Longrightarrow> api srv req w = api_final srv req w"
  by (subst api.simps) (simp add: api_final_def Let_def split: prod.splits sum.splits)

lemma send_eq:
  "send srv ev c w =
     (srv (sent_count w) c,
      w\<lparr>trace := trace w @ [ev c], clock := clock w + int (ans_took (srv (sent_count w) c))\<rparr>)"
  by (simp add: send_def Let_def emit_def)

lemma handleAuthFailure_fields [simp]:
  "cache (handleAuthFailure w) = cache w"
  "trace (handleAuthFailure w) = trace w"
  "clock (handleAuthFailure w) = clock w"
  "location (handleAuthFailure w) = ''/login''"
  "storage (handleAuthFailure w) =
     (storage w)(''adminToken'' := None, ''adminUser'' := None, ''refreshToken'' := None)"
  by (simp_all add: handleAuthFailure_def removeItem_def)

lemma error_handling_fields [simp]:
  "fst (error_handling err w) = Inl (Http err)"
  "cache (snd (error_handling err w)) = cache w"
  "trace (snd (error_handling err w)) = trace w @ [Toast (toast_text err)]"
  "clock (snd (error_handling err w)) = clock w"
  "err_status err \<noteq> Some 401 \<Longrightarrow> storage (snd (error_handling err w)) = storage w"
  by (simp_all add: error_handling_def Let_def emit_def)

lemma axios_postD:
  "axios_post srv u b w = (r, w') \<Longrightarrow>
     cache w' = cache w \<and> storage w' = storage w \<and> location w' = location w \<and>
     trace w' = trace w @ [Axios_Sent
       \<lparr>req_method = POST, req_url = u, req_data = b, req_params = JUndefined,
        authorization = None, retry = False\<rparr>]"
  by (auto simp: axios_post_def Let_def send_eq split: sum.splits)

lemma api_final_cache [simp]: "cache (snd (api_final srv req w)) = cache w"
  by (simp add: api_final_def Let_def send_eq split: sum.splits)

lemma api_cache: "cache (snd (api srv req w)) = cache w"
proof (cases "retry req")
  case True
  then show ?thesis by (simp add: api_marked)
next
  case False
  show ?thesis
    by (subst api.simps)
       (auto simp: Let_def api_marked send_eq setItem_def
             split: prod.splits sum.splits option.splits dest!: axios_postD)
qed

section \<open>The paths of a call\<close>

lemma sent_count_append [simp]:
  "sent_count (w\<lparr>trace := trace w @ [Api_Sent c]\<rparr>) = Suc (sent_count w)"
  "sent_count (w\<lparr>trace := trace w @ [Axios_Sent c]\<rparr>) = Suc (sent_count w)"
  "sent_count (w\<lparr>trace := trace w @ [Toast t]\<rparr>) = sent_count w"
  "sent_count (w\<lparr>clock := c'\<rparr>) = sent_count w"
  "sent_count (w\<lparr>storage := s'\<rparr>) = sent_count w"
  by (simp_all add: sent_count_def)

lemma sent1_fields [simp]:
  "cache (sent1 srv req w) = cache w"
  "storage (sent1 srv req w) = storage w"
  "location (sent1 srv req w) = location w"
  "trace (sent1 srv req w) = trace w @ [Api_Sent (request_interceptor w req)]"
  "sent_count (sent1 srv req w) = Suc (sent_count w)"
  "getItem (sent1 srv req w) k = getItem w k"
  by (simp_all add: sent1_def send_eq getItem_def)

lemma sent2_fields [simp]:
  "cache (sent2 srv req w) = cache w"
  "storage (sent2 srv req w) = storage w"
  "location (sent2 srv req w) = location w"
  "trace (sent2 srv req w) = trace w @ [Api_Sent (request_interceptor w req),
     Axios_Sent (refresh_request (getItem w ''refreshToken''))]"
  "sent_count (sent2 srv req w) = Suc (Suc (sent_count w))"
  by (simp_all add: sent2_def send_eq sent_count_def)

lemma axios_post_refresh:
  "axios_post srv ''/auth/refresh'' (JObj [(''refreshToken'', getItem w ''refreshToken'')]) (sent1 srv req w)
    = (case settle (refresh_request (getItem w ''refreshToken''))
              (srv (Suc (sent_count w)) (refresh_request (getItem w ''refreshToken''))) of
         Inl e \<Rightarrow> (Inl (Http e), sent2 srv req w)
       | Inr r \<Rightarrow> (Inr r, sent2 srv req w))"
  by (simp add: axios_post_def Let_def sent2_def refresh_request_def send_eq split: sum.splits)

lemma api_resolved:
  assumes "settle (request_interceptor w req) (srv (sent_count w) (request_interceptor w req)) = Inr r"
  shows "api srv req w = (Inr r, sent1 srv req w)"
  using assms by (subst api.simps) (simp add: Let_def send_eq sent1_def)

lemma api_rejected:
  assumes "settle (request_interceptor w req) (srv (sent_count w) (request_interceptor w req)) = Inl err"
    and "err_status err \<noteq> Some 401 \<or> retry req"
  shows "api srv req w = error_handling err (sent1 srv req w)"
  using assms by (subst api.simps) (auto simp add: Let_def send_eq sent1_def)

lemma api_401_no_token:
  assumes "settle (request_interceptor w req) (srv (sent_count w) (request_interceptor w req)) = Inl err"
    and "err_status err = Some 401" and "\<not> retry req"
    and "\<not> truthy (getItem w ''refreshToken'')"
  shows "api srv req w = error_handling (err\<lparr>err_config := (request_interceptor w req)\<lparr>retry := True\<rparr>\<rparr>) (sent1 srv req w)"
  using assms by (subst api.simps) (simp add: Let_def send_eq sent1_def getItem_def)

lemma api_401_refresh_rejected:
  assumes "settle (request_interceptor w req) (srv (sent_count w) (request_interceptor w req)) = Inl err"
    and "err_status err = Some 401" and "\<not> retry req"
    and "truthy (getItem w ''refreshToken'')"
    and "settle (refresh_request (getItem w ''refreshToken''))
              (srv (Suc (sent_count w)) (refresh_request (getItem w ''refreshToken''))) = Inl e"
  shows "api srv req w = (Inl (Http e), handleAuthFailure (sent2 srv req w))"
proof -
  have s: "send srv Api_Sent (request_interceptor w req) w
     = (srv (sent_count w) (request_interceptor w req), sent1 srv req w)"
    by (simp add: sent1_def send_eq)
  show ?thesis
    using assms by (subst api.simps) (simp add: Let_def s axios_post_refresh)
qed

lemma api_401_refresh_no_body:
  assumes "settle (request_interceptor w req) (srv (sent_count w) (request_interceptor w req)) = Inl err"
    and "err_status err = Some 401" and "\<not> retry req"
    and "truthy (getItem w ''refreshToken'')"
    and "settle (refresh_request (getItem w ''refreshToken''))
              (srv (Suc (sent_count w)) (refresh_request (getItem w ''refreshToken''))) = Inr r"
    and "get_prop (resp_data r) ''token'' = None"
  shows "api srv req w = (Inl (TypeError ''token''), handleAuthFailure (sent2 srv req w))"
proof -
  have s: "send srv Api_Sent (request_interceptor w req) w
     = (srv (sent_count w) (request_interceptor w req), sent1 srv req w)"
    by (simp add: sent1_def send_eq)
  show ?thesis
    using assms by (subst api.simps) (simp add: Let_def s axios_post_refresh)
qed

lemma api_401_refreshed:
  assumes "settle (request_interceptor w req) (srv (sent_count w) (request_interceptor w req)) = Inl err"
    and "err_status err = Some 401" and "\<not> retry req"
    and "truthy (getItem w ''refreshToken'')"
    and "settle (refresh_request (getItem w ''refreshToken''))
              (srv (Suc (sent_count w)) (refresh_request (getItem w ''refreshToken''))) = Inr r"
    and "get_prop (resp_data r) ''token'' = Some newToken"
  shows "api srv req w =
     api_final srv ((request_interceptor w req)
                      \<lparr>retry := True, authorization := Some (''Bearer '' @ js_string newToken)\<rparr>)
       (setItem ''adminToken'' (js_string newToken) (sent2 srv req w))"
proof -
  have s: "send srv Api_Sent (request_interceptor w req) w
     = (srv (sent_count w) (request_interceptor w req), sent1 srv req w)"
    by (simp add: sent1_def send_eq)
  show ?thesis
    using assms by (subst api.simps) (simp add: Let_def s axios_post_refresh api_marked)
qed

lemma interceptor_after_refresh:
  "request_interceptor (setItem ''adminToken'' (js_string t) w') (retried_request w req t)
   = retried_request w req t"
  by (simp add: retried_request_def request_interceptor_def Let_def getItem_def setItem_def)

lemma sent3_fields [simp]:
  "cache (sent3 srv req w t) = cache w"
  "storage (sent3 srv req w t) = (storage w)(''adminToken'' \<mapsto> js_string t)"
  "location (sent3 srv req w t) = location w"
  "trace (sent3 srv req w t) = trace w @ [Api_Sent (request_interceptor w req),
     Axios_Sent (refresh_request (getItem w ''refreshToken'')),
     Api_Sent (retried_request w req t)]"
  by (simp_all add: sent3_def send_eq setItem_def)

lemma api_final_refreshed:
  "api_final srv (retried_request w req t) (setItem ''adminToken'' (js_string t) (sent2 srv req w))
   = (case settle (retried_request w req t)
             (srv (Suc (Suc (sent_count w))) (retried_request w req t)) of
        Inr r \<Rightarrow> (Inr r, sent3 srv req w t)
      | Inl err \<Rightarrow> error_handling err (sent3 srv req w t))"
proof -
  have i: "request_interceptor (setItem ''adminToken'' (js_string t) (sent2 srv req w))
             (retried_request w req t) = retried_request w req t"
    by (rule interceptor_after_refresh)
  have c: "sent_count (setItem ''adminToken'' (js_string t) (sent2 srv req w))
             = Suc (Suc (sent_count w))"
    by (simp add: setItem_def)
  show ?thesis
    by (simp add: api_final_def Let_def i c send_def sent3_def split: sum.splits)
qed

lemma api_cases [case_names resolved rejected no_token refresh_rejected refresh_no_body
    retry_resolved retry_rejected]:
  fixes srv req w
  obtains
    r where "settle (request_interceptor w req) (srv (sent_count w) (request_interceptor w req)) = Inr r"
      and "api srv req w = (Inr r, sent1 srv req w)"
  | err where "settle (request_interceptor w req) (srv (sent_count w) (request_interceptor w req)) = Inl err"
      and "err_status err \<noteq> Some 401 \<or> retry req"
      and "api srv req w = error_handling err (sent1 srv req w)"
  | err where "settle (request_interceptor w req) (srv (sent_count w) (request_interceptor w req)) = Inl err"
      and "err_status err = Some 401" and "\<not> retry req"
      and "\<not> truthy (getItem w ''refreshToken'')"
      and "api srv req w = error_handling
             (err\<lparr>err_config := (request_interceptor w req)\<lparr>retry := True\<rparr>\<rparr>) (sent1 srv req w)"
  | err e where "settle (request_interceptor w req) (srv (sent_count w) (request_interceptor w req)) = Inl err"
      and "err_status err = Some 401" and "\<not> retry req"
      and "truthy (getItem w ''refreshToken'')"
      and "settle (refresh_request (getItem w ''refreshToken''))
              (srv (Suc (sent_count w)) (refresh_request (getItem w ''refreshToken''))) = Inl e"
      and "api srv req w = (Inl (Http e), handleAuthFailure (sent2 srv req w))"
  | err r where "settle (request_interceptor w req) (srv (sent_count w) (request_interceptor w req)) = Inl err"
      and "err_status err = Some 401" and "\<not> retry req"
      and "truthy (getItem w ''refreshToken'')"
      and "settle (refresh_request (getItem w ''refreshToken''))
              (srv (Suc (sent_count w)) (refresh_request (getItem w ''refreshToken''))) = Inr r"
      and "get_prop (resp_data r) ''token'' = None"
      and "api srv req w = (Inl (TypeError ''token''), handleAuthFailure (sent2 srv req w))"
  | err r t r3 where "settle (request_interceptor w req) (srv (sent_count w) (request_interceptor w req)) = Inl err"
      and "err_status err = Some 401" and "\<not> retry req"
      and "truthy (getItem w ''refreshToken'')"
      and "settle (refresh_request (getItem w ''refreshToken''))
              (srv (Suc (sent_count w)) (refresh_request (getItem w ''refreshToken''))) = Inr r"
      and "get_prop (resp_data r) ''token'' = Some t"
      and "settle (retried_request w req t)
             (srv (Suc (Suc (sent_count w))) (retried_request w req t)) = Inr r3"
      and "api srv req w = (Inr r3, sent3 srv req w t)"
  | err r t err3 where "settle (request_interceptor w req) (srv (sent_count w) (request_interceptor w req)) = Inl err"
      and "err_status err = Some 401" and "\<not> retry req"
      and "truthy (getItem w ''refreshToken'')"
      and "settle (refresh_request (getItem w ''refreshToken''))
              (srv (Suc (sent_count w)) (refresh_request (getItem w ''refreshToken''))) = Inr r"
      and "get_prop (resp_data r) ''token'' = Some t"
      and "settle (retried_request w req t)
             (srv (Suc (Suc (sent_count w))) (retried_request w req t)) = Inl err3"
      and "api srv req w = error_handling err3 (sent3 srv req w t)"
proof (cases "settle (request_interceptor w req) (srv (sent_count w) (request_interceptor w req))")
  case (Inr r)
  then show ?thesis using that(1) api_resolved by blast
next
  case (Inl err)
  note first = Inl
  show ?thesis
  proof (cases "err_status err \<noteq> Some 401 \<or> retry req")
    case True
    then show ?thesis using that(2) first api_rejected by blast
  next
    case False
    then have st: "err_status err = Some 401" and nr: "\<not> retry req" by auto
    show ?thesis
    proof (cases "truthy (getItem w ''refreshToken'')")
      case False
      then show ?thesis using that(3) first st nr api_401_no_token by blast
    next
      case True
      note tok = True
      show ?thesis
      proof (cases "settle (refresh_request (getItem w ''refreshToken''))
              (srv (Suc (sent_count w)) (refresh_request (getItem w ''refreshToken'')))")
        case (Inl e)
        then show ?thesis using that(4) first st nr tok api_401_refresh_rejected by blast
      next
        case (Inr r)
        note refreshed = Inr
        show ?thesis
        proof (cases "get_prop (resp_data r) ''token''")
          case None
          then show ?thesis using that(5) first st nr tok refreshed api_401_refresh_no_body by blast
        next
          case (Some t)
          have a: "api srv req w = api_final srv (retried_request w req t)
                     (setItem ''adminToken'' (js_string t) (sent2 srv req w))"
            using api_401_refreshed[OF first st nr tok refreshed Some]
            by (simp add: retried_request_def)
          show ?thesis
          proof (cases "settle (retried_request w req t)
             (srv (Suc (Suc (sent_count w))) (retried_request w req t))")
            case (Inl err3)
            then show ?thesis
              using that(7)[OF first st nr tok refreshed Some] a by (simp add: api_final_refreshed)
          next
            case (Inr r3)
            then show ?thesis
              using that(6)[OF first st nr tok refreshed Some] a by (simp add: api_final_refreshed)
          qed
        qed
      qed
    qed
  qed
qed


lemma settle_401:
  "ans_status a = Some 401 \<Longrightarrow>
     settle c a = Inl \<lparr>err_config = c, err_status = Some 401, err_data = ans_data a,
                       err_code = ans_code a, err_message = ans_message a\<rparr>"
  by (simp add: settle_def)

lemma settle_InlD:
  "settle c a = Inl err \<Longrightarrow> err_status err = ans_status a \<and> err_config err = c"
  by (auto simp: settle_def split: option.splits if_splits)

lemma new_events_append [simp]:
  "trace w' = trace w @ evs \<Longrightarrow> new_events w w' = evs"
  by (simp add: new_events_def)

section \<open>Running the model on concrete inputs\<close>

lemmas step_defs =
  api_request_def request_interceptor_def getItem_def send_eq settle_def sent_count_def
  first_segment_def last_segment_def delete_including_def world0_def world1_def config0_def
  reply_def script_def Let_def error_handling_def toast_text_def error_message_def
  get_prop_opt_def handleAuthFailure_def removeItem_def setItem_def axios_post_def
  getCachedData_def setCachedData_def cacheKey_def sleep_def emit_def CACHE_DURATION_def
  json0_def refresh_request_def retried_request_def new_events_def

lemmas run_defs = api.simps step_defs

section \<open>Cache expiry\<close>

text \<open>
  C7. The time-to-live is the one constant of 5 minutes (300000 ms). For an entry
  stored under a key, a read while \<open>now - timestamp < CACHE_DURATION\<close> returns the
  entry's data and changes nothing; a read at or after that age is a miss: it returns
  null and removes exactly that entry from the store, and a cached read of that key
  goes on to the network with the entry gone.
\<close>

theorem getCachedData_ttl:
  "CACHE_DURATION = 300000 \<and>
   (cache w key = Some e \<longrightarrow>
     (clock w - timestamp e < CACHE_DURATION \<longrightarrow> getCachedData key w = (data e, w)) \<and>
     (CACHE_DURATION \<le> clock w - timestamp e \<longrightarrow>
        fst (getCachedData key w) = JNull \<and>
        cache (snd (getCachedData key w)) key = None \<and>
        (\<forall>k. k \<noteq> key \<longrightarrow> cache (snd (getCachedData key w)) k = cache w k) \<and>
        snd (getCachedData key w) = w\<lparr>cache := (cache w)(key := None)\<rparr> \<and>
        (\<not> cfg_skipCache cfg \<and> key = cacheKey stringify u cfg \<longrightarrow>
           apiWrapper_get stringify srv u cfg w
             = fetch_get key srv u cfg (w\<lparr>cache := (cache w)(key := None)\<rparr>))))"
proof -
  have ttl: "CACHE_DURATION = 300000" by (simp add: CACHE_DURATION_def)
  have hit: "cache w key = Some e \<longrightarrow> clock w - timestamp e < CACHE_DURATION \<longrightarrow>
               getCachedData key w = (data e, w)"
    by (simp add: getCachedData_def)
  have miss: "getCachedData key w = (JNull, w\<lparr>cache := (cache w)(key := None)\<rparr>)"
    if "cache w key = Some e" "CACHE_DURATION \<le> clock w - timestamp e"
    using that by (simp add: getCachedData_def)
  have evict: "cache w key = Some e \<longrightarrow> CACHE_DURATION \<le> clock w - timestamp e \<longrightarrow>
        fst (getCachedData key w) = JNull \<and>
        cache (snd (getCachedData key w)) key = None \<and>
        (\<forall>k. k \<noteq> key \<longrightarrow> cache (snd (getCachedData key w)) k = cache w k) \<and>
        snd (getCachedData key w) = w\<lparr>cache := (cache w)(key := None)\<rparr>"
    using miss by simp
  have refetch: "cache w key = Some e \<longrightarrow> CACHE_DURATION \<le> clock w - timestamp e \<longrightarrow>
        \<not> cfg_skipCache cfg \<and> key = cacheKey stringify u cfg \<longrightarrow>
        apiWrapper_get stringify srv u cfg w
          = fetch_get key srv u cfg (w\<lparr>cache := (cache w)(key := None)\<rparr>)"
    using miss by (auto simp: apiWrapper_get_def Let_def)
  show ?thesis
    using ttl hit evict refetch by blast
qed

theorem getCachedData_ttl_witness:
  "getCachedData ''GET_/books_{}''
     (world0\<lparr>cache := [''GET_/books_{}'' \<mapsto> \<lparr>data = JStr ''v'', timestamp = 1000\<rparr>],
             clock := 300999\<rparr>)
     = (JStr ''v'',
        world0\<lparr>cache := [''GET_/books_{}'' \<mapsto> \<lparr>data = JStr ''v'', timestamp = 1000\<rparr>],
                clock := 300999\<rparr>) \<and>
   fst (getCachedData ''GET_/books_{}''
       (world0\<lparr>cache := [''GET_/books_{}'' \<mapsto> \<lparr>data = JStr ''v'', timestamp = 1000\<rparr>],
               clock := 301000\<rparr>))
     = JNull \<and>
   cache (snd (getCachedData ''GET_/books_{}''
       (world0\<lparr>cache := [''GET_/books_{}'' \<mapsto> \<lparr>data = JStr ''v'', timestamp = 1000\<rparr>],
               clock := 301000\<rparr>)))
       ''GET_/books_{}'' = None \<and>
   trace (snd (apiWrapper_get json0 (script [] (reply 200 (JStr ''new''))) ''/books'' config0
       (world0\<lparr>cache := [''GET_/books_{}'' \<mapsto> \<lparr>data = JStr ''v'', timestamp = 1000\<rparr>],
               clock := 301000\<rparr>)))
     = [Api_Sent (api_request GET ''/books'' JUndefined config0)]"
proof -
  let ?e = "\<lparr>data = JStr ''v'', timestamp = 1000\<rparr>"
  let ?fresh = "world0\<lparr>cache := [''GET_/books_{}'' \<mapsto> ?e], clock := 300999\<rparr>"
  let ?stale = "world0\<lparr>cache := [''GET_/books_{}'' \<mapsto> ?e], clock := 301000\<rparr>"
  let ?srv = "script [] (reply 200 (JStr ''new''))"
  have a: "getCachedData ''GET_/books_{}'' ?fresh = (JStr ''v'', ?fresh)"
    using getCachedData_ttl [of ?fresh "''GET_/books_{}''" ?e config0 json0 "''/books''" ?srv]
    by (simp add: world0_def)
  have b: "fst (getCachedData ''GET_/books_{}'' ?stale) = JNull \<and>
           cache (snd (getCachedData ''GET_/books_{}'' ?stale)) ''GET_/books_{}'' = None \<and>
           apiWrapper_get json0 ?srv ''/books'' config0 ?stale
             = fetch_get ''GET_/books_{}'' ?srv ''/books'' config0
                 (?stale\<lparr>cache := (cache ?stale)(''GET_/books_{}'' := None)\<rparr>)"
    using getCachedData_ttl [of ?stale "''GET_/books_{}''" ?e config0 json0 "''/books''" ?srv]
    by (simp add: world0_def config0_def cacheKey_def json0_def)
  have c: "trace (snd (fetch_get ''GET_/books_{}'' ?srv ''/books'' config0
                 (?stale\<lparr>cache := (cache ?stale)(''GET_/books_{}'' := None)\<rparr>)))
           = [Api_Sent (api_request GET ''/books'' JUndefined config0)]"
    by (simp add: run_defs fetch_get_def)
  show ?thesis
    using a b c by simp
qed

section \<open>Retry without attempts\<close>

text \<open>
  C10. With \<open>maxRetries \<le> 0\<close> the retry helper never invokes the operation
  (whatever the operation is, the world is returned as it was) and returns undefined;
  \<open>apiWrapper.post\<close> with such a \<open>config.maxRetries\<close> then fails with the TypeError of
  reading \<open>data\<close> of undefined, and no request has been sent.
\<close>

theorem retryRequest_no_attempt:
  assumes "m \<le> 0"
  shows "retryRequest requestFunc (Some m) delay w = (Inr None, w) \<and>
         apiWrapper_post srv u body (cfg\<lparr>cfg_maxRetries := Some m\<rparr>) w
           = (Inl (TypeError ''data''), w)"
  using assms
  by (simp add: retryRequest_def apiWrapper_post_def retryRequest_loop.simps)

theorem retryRequest_no_attempt_witness:
  "retryRequest (api (script [] (reply 200 JNull)) (api_request POST ''/books'' JNull config0))
      (Some 0) None world0 = (Inr None, world0) \<and>
   apiWrapper_post (script [] (reply 200 JNull)) ''/books'' JNull
      (config0\<lparr>cfg_maxRetries := Some 0\<rparr>) world0 = (Inl (TypeError ''data''), world0)"
  using retryRequest_no_attempt [of 0 "api (script [] (reply 200 JNull))
      (api_request POST ''/books'' JNull config0)" None world0
      "script [] (reply 200 JNull)" "''/books''" JNull config0]
  by simp

section \<open>Invalidation on writes\<close>

lemma includes_str_Nil [simp]: "includes_str s []"
  by (cases s) simp_all

lemma first_segment_slash [simp]: "first_segment (CHR ''/'' # u) = []"
  by (simp add: first_segment_def)

text \<open>
  A successful \<open>apiWrapper.put\<close> to any path that starts with a slash empties the
  whole cache: the pattern is the text before the first slash, the empty string, and
  every key includes it.
\<close>

lemma put_leading_slash_clears_cache:
  assumes "apiWrapper_put srv (CHR ''/'' # u) body cfg w = (Inr d, w')"
  shows "cache w' = Map.empty"
  using assms
  by (auto simp: apiWrapper_put_def Let_def delete_including_def split: prod.splits sum.splits)

text \<open>
  C4. A mutating call removes exactly the entries under its resource prefix and
  never an entry of an unrelated resource. The code does otherwise at these inputs.
  With entries for \<^verbatim>\<open>/books\<close> and \<^verbatim>\<open>/users\<close> cached, a successful
  \<^verbatim>\<open>apiWrapper.put('/books/42')\<close> removes the \<^verbatim>\<open>/users\<close> entry as well. With entries
  for \<^verbatim>\<open>/books\<close> and \<^verbatim>\<open>/users/142\<close> cached, a successful
  \<^verbatim>\<open>apiWrapper.delete('/books/42')\<close> keeps the \<^verbatim>\<open>/books\<close> entry and removes the one of
  \<^verbatim>\<open>/users/142\<close>, whose key happens to contain \<^verbatim>\<open>42\<close>.
\<close>

theorem write_invalidation_at_books_42:
  "fst (apiWrapper_put (script [] (reply 200 JNull)) ''/books/42'' JNull config0
     (world0\<lparr>cache := [''GET_/books_{}'' \<mapsto> \<lparr>data = JNum 1, timestamp = 0\<rparr>,
                        ''GET_/users_{}'' \<mapsto> \<lparr>data = JNum 2, timestamp = 0\<rparr>]\<rparr>)) = Inr JNull \<and>
   cache (snd (apiWrapper_put (script [] (reply 200 JNull)) ''/books/42'' JNull config0
     (world0\<lparr>cache := [''GET_/books_{}'' \<mapsto> \<lparr>data = JNum 1, timestamp = 0\<rparr>,
                        ''GET_/users_{}'' \<mapsto> \<lparr>data = JNum 2, timestamp = 0\<rparr>]\<rparr>)))
       ''GET_/users_{}'' = None \<and>
   fst (apiWrapper_delete (script [] (reply 200 JNull)) ''/books/42'' config0
     (world0\<lparr>cache := [''GET_/books_{}'' \<mapsto> \<lparr>data = JNum 1, timestamp = 0\<rparr>,
                        ''GET_/users/142_{}'' \<mapsto> \<lparr>data = JNum 2, timestamp = 0\<rparr>]\<rparr>)) = Inr JNull \<and>
   cache (snd (apiWrapper_delete (script [] (reply 200 JNull)) ''/books/42'' config0
     (world0\<lparr>cache := [''GET_/books_{}'' \<mapsto> \<lparr>data = JNum 1, timestamp = 0\<rparr>,
                        ''GET_/users/142_{}'' \<mapsto> \<lparr>data = JNum 2, timestamp = 0\<rparr>]\<rparr>)))
       ''GET_/users/142_{}'' = None \<and>
   cache (snd (apiWrapper_delete (script [] (reply 200 JNull)) ''/books/42'' config0
     (world0\<lparr>cache := [''GET_/books_{}'' \<mapsto> \<lparr>data = JNum 1, timestamp = 0\<rparr>,
                        ''GET_/users/142_{}'' \<mapsto> \<lparr>data = JNum 2, timestamp = 0\<rparr>]\<rparr>)))
       ''GET_/books_{}'' = Some \<lparr>data = JNum 1, timestamp = 0\<rparr>"
  by (simp add: run_defs apiWrapper_put_def apiWrapper_delete_def)

section \<open>Retry with backoff\<close>

lemma loop_all_fail:
  assumes fail: "\<forall>w. isl (fst (f w))"
  shows "i < m \<Longrightarrow>
    retryRequest_loop f (int m) d (int i)
        (case i of 0 \<Rightarrow> w | Suc j \<Rightarrow> sleep (d * 2 ^ j) (snd (attempt f d j w)))
      = lift_outcome (attempt f d (m - 1) w)"
proof (induction "m - i" arbitrary: i)
  case 0
  then show ?case by simp
next
  case (Suc k)
  let ?W = "case i of 0 \<Rightarrow> w | Suc j \<Rightarrow> sleep (d * 2 ^ j) (snd (attempt f d j w))"
  have att: "attempt f d i w = f ?W" by (cases i) simp_all
  obtain e w1 where fw: "f ?W = (Inl e, w1)"
    using fail by (metis isl_def prod.collapse)
  show ?case
  proof (cases "Suc i = m")
    case True
    then have "m - 1 = i" by simp
    with fw att True show ?thesis
      by (subst retryRequest_loop.simps) (auto simp: lift_outcome_def)
  next
    case False
    with Suc.prems have lt: "Suc i < m" by simp
    have k: "k = m - Suc i" using Suc.hyps(2) by simp
    have ih: "retryRequest_loop f (int m) d (int (Suc i))
                (sleep (d * 2 ^ i) (snd (attempt f d i w)))
              = lift_outcome (attempt f d (m - 1) w)"
      using Suc.hyps(1)[OF k lt] by simp
    have ne: "int i \<noteq> int m - 1" using lt by simp
    have unfold: "retryRequest_loop f (int m) d (int i) ?W
        = retryRequest_loop f (int m) d (int i + 1) (sleep (d * 2 ^ nat (int i)) w1)"
      using fw ne Suc.prems by (subst retryRequest_loop.simps) simp
    show ?thesis
      using unfold ih att fw by (simp add: add.commute)
  qed
qed

text \<open>
  C3, as the code has it. When the operation fails on every attempt, the helper
  called with \<open>maxRetries = n \<ge> 1\<close> invokes it \<open>n\<close> times in all, attempt \<open>i \<ge> 1\<close>
  after a wait of \<open>delay * 2^(i-1)\<close>, and raises the error of attempt \<open>n - 1\<close>. With
  the defaults (3 and 1000 ms) that is three invocations, a wait of 1000 ms before
  the second, of 2000 ms before the third, and the third error raised.
\<close>

theorem retryRequest_exhausted:
  assumes "\<forall>w. isl (fst (requestFunc w))"
  shows "(0 < n \<longrightarrow>
           retryRequest requestFunc (Some (int n)) (Some delay) w
             = lift_outcome (attempt requestFunc delay (n - 1) w)) \<and>
         retryRequest requestFunc None None w
           = lift_outcome
               (requestFunc (sleep 2000 (snd (requestFunc (sleep 1000 (snd (requestFunc w)))))))"
proof -
  have g: "0 < m \<Longrightarrow> retryRequest_loop requestFunc (int m) d 0 w
             = lift_outcome (attempt requestFunc d (m - 1) w)" for m d
    using loop_all_fail[OF assms, of 0 m d w] by simp
  have "retryRequest requestFunc None None w = lift_outcome (attempt requestFunc 1000 2 w)"
    using g[of 3 1000] by (simp add: retryRequest_def)
  moreover have "attempt requestFunc 1000 2 w
     = requestFunc (sleep 2000 (snd (requestFunc (sleep 1000 (snd (requestFunc w))))))"
    by (simp add: numeral_2_eq_2)
  ultimately show ?thesis using g[of n delay] by (simp add: retryRequest_def)
qed

lemma api_500_fails:
  "isl (fst (api (script [] (reply 500 JNull)) req w))"
  by (subst api.simps)
     (simp add: Let_def send_eq settle_def script_def reply_def error_handling_def)

theorem retryRequest_exhausted_witness:
  "retryRequest (api (script [] (reply 500 JNull)) (api_request POST ''/books'' JNull config0))
      (Some (int 3)) (Some 1000) world0
     = lift_outcome (attempt (api (script [] (reply 500 JNull))
         (api_request POST ''/books'' JNull config0)) 1000 (3 - 1) world0) \<and>
   trace (snd (retryRequest (api (script [] (reply 500 JNull))
       (api_request POST ''/books'' JNull config0)) None None world0))
     = [Api_Sent (api_request POST ''/books'' JNull config0),
        Toast ''Server error. Please try again later.'', Slept 1000,
        Api_Sent (api_request POST ''/books'' JNull config0),
        Toast ''Server error. Please try again later.'', Slept 2000,
        Api_Sent (api_request POST ''/books'' JNull config0),
        Toast ''Server error. Please try again later.'']"
proof -
  let ?f = "api (script [] (reply 500 JNull)) (api_request POST ''/books'' JNull config0)"
  have h: "\<forall>w. isl (fst (?f w))"
    by (simp add: api_500_fails)
  note t = retryRequest_exhausted [OF h, of 3 1000 world0]
  have a: "retryRequest ?f (Some (int 3)) (Some 1000) world0
             = lift_outcome (attempt ?f 1000 (3 - 1) world0)"
    using t by simp
  have b: "retryRequest ?f None None world0
             = lift_outcome (?f (sleep 2000 (snd (?f (sleep 1000 (snd (?f world0)))))))"
    using t by simp
  have c: "trace (snd (lift_outcome (?f (sleep 2000 (snd (?f (sleep 1000 (snd (?f world0))))))))) 
     = [Api_Sent (api_request POST ''/books'' JNull config0),
        Toast ''Server error. Please try again later.'', Slept 1000,
        Api_Sent (api_request POST ''/books'' JNull config0),
        Toast ''Server error. Please try again later.'', Slept 2000,
        Api_Sent (api_request POST ''/books'' JNull config0),
        Toast ''Server error. Please try again later.'']"
    by (simp add: run_defs lift_outcome_def)
  show ?thesis
    using a b c by simp
qed

text \<open>
  The claim's four invocations with waits of 0, 1000 and 2000 ms do not occur: with
  \<open>maxRetries = 3\<close> and \<open>delay = 1000\<close> against a server that always answers 500, the
  trace holds three requests and the two waits 1000 and 2000.
\<close>

theorem retryRequest_three_attempts_counterexample:
  "trace (snd (retryRequest (api (script [] (reply 500 JNull))
       (api_request POST ''/books'' JNull config0)) (Some 3) (Some 1000) world0))
     = [Api_Sent (api_request POST ''/books'' JNull config0),
        Toast ''Server error. Please try again later.'', Slept 1000,
        Api_Sent (api_request POST ''/books'' JNull config0),
        Toast ''Server error. Please try again later.'', Slept 2000,
        Api_Sent (api_request POST ''/books'' JNull config0),
        Toast ''Server error. Please try again later.''] \<and>
   length (filter is_sent (trace (snd (retryRequest (api (script [] (reply 500 JNull))
       (api_request POST ''/books'' JNull config0)) (Some 3) (Some 1000) world0)))) \<noteq> 4"
  by (simp add: run_defs retryRequest_def retryRequest_loop.simps)

section \<open>What a cached read stores\<close>

lemma getCachedData_frame [simp]:
  "storage (snd (getCachedData key w)) = storage w"
  "trace (snd (getCachedData key w)) = trace w"
  "clock (snd (getCachedData key w)) = clock w"
  "location (snd (getCachedData key w)) = location w"
  by (simp_all add: getCachedData_def split: option.splits)

text \<open>
  C6, as the code has it. A cached read (\<open>skipCache\<close> unset) that finds a truthy
  fresh value returns it and changes nothing. Otherwise it goes to the network, and
  it stores the payload under its key exactly when the response has status 200; on
  any other response and on a failed request it stores nothing, and the cache is as
  the lookup left it.
\<close>

theorem get_stores_on_200_only:
  assumes "\<not> cfg_skipCache cfg"
    and "key = cacheKey stringify u cfg"
    and "apiWrapper_get stringify srv u cfg w = (res, w')"
  shows "(truthy (fst (getCachedData key w)) \<longrightarrow>
            res = Inr (fst (getCachedData key w)) \<and> w' = w) \<and>
         (\<not> truthy (fst (getCachedData key w)) \<longrightarrow>
            (case api srv (api_request GET u JUndefined cfg) (snd (getCachedData key w)) of
               (Inl e, w2) \<Rightarrow>
                 res = Inl e \<and> cache w' = cache (snd (getCachedData key w))
             | (Inr r, w2) \<Rightarrow>
                 res = Inr (resp_data r) \<and>
                 cache w' =
                   (if resp_status r = 200
                    then (cache (snd (getCachedData key w)))
                           (key \<mapsto> \<lparr>data = resp_data r, timestamp = clock w2\<rparr>)
                    else cache (snd (getCachedData key w)))))"
proof -
  obtain c w1 where g: "getCachedData key w = (c, w1)" by (cases "getCachedData key w")
  obtain out w2 where a: "api srv (api_request GET u JUndefined cfg) w1 = (out, w2)"
    by (cases "api srv (api_request GET u JUndefined cfg) w1")
  have cw2: "cache w2 = cache w1"
    using api_cache[of srv "api_request GET u JUndefined cfg" w1] a by simp
  have hit: "truthy c \<Longrightarrow> w1 = w"
    using g by (auto simp: getCachedData_def split: option.splits if_splits)
  show ?thesis
    using assms g a cw2 hit
    by (cases out) (auto simp: apiWrapper_get_def fetch_get_def Let_def setCachedData_def)
qed

theorem get_stores_on_200_only_witness:
  "fst (apiWrapper_get json0 (script [] (reply 200 (JStr ''v''))) ''/books'' config0 world0)
     = Inr (JStr ''v'') \<and>
   cache (snd (apiWrapper_get json0 (script [] (reply 200 (JStr ''v''))) ''/books'' config0 world0))
       ''GET_/books_{}'' = Some \<lparr>data = JStr ''v'', timestamp = 20\<rparr> \<and>
   fst (apiWrapper_get json0 (script [] (reply 404 JNull)) ''/books'' config0 world0)
     = Inl (Http \<lparr>err_config = api_request GET ''/books'' JUndefined config0,
                   err_status = Some 404, err_data = JNull, err_code = ''ERR_BAD_RESPONSE'',
                   err_message = ''Request failed''\<rparr>) \<and>
   cache (snd (apiWrapper_get json0 (script [] (reply 404 JNull)) ''/books'' config0 world0))
       ''GET_/books_{}'' = None"
  using
    get_stores_on_200_only [where cfg = config0 and stringify = json0 and u = "''/books''"
      and key = "''GET_/books_{}''" and w = world0
      and srv = "script [] (reply 200 (JStr ''v''))"
      and res = "fst (apiWrapper_get json0 (script [] (reply 200 (JStr ''v'')))
                   ''/books'' config0 world0)"
      and w' = "snd (apiWrapper_get json0 (script [] (reply 200 (JStr ''v'')))
                   ''/books'' config0 world0)"]
    get_stores_on_200_only [where cfg = config0 and stringify = json0 and u = "''/books''"
      and key = "''GET_/books_{}''" and w = world0 and srv = "script [] (reply 404 JNull)"
      and res = "fst (apiWrapper_get json0 (script [] (reply 404 JNull))
                   ''/books'' config0 world0)"
      and w' = "snd (apiWrapper_get json0 (script [] (reply 404 JNull))
                   ''/books'' config0 world0)"]
  by (simp add: run_defs)

text \<open>
  A response with status 201 is a success (axios resolves it, and the read returns
  its payload), yet nothing is stored.
\<close>

theorem get_201_not_stored_counterexample:
  "fst (apiWrapper_get json0 (script [] (reply 201 (JStr ''v''))) ''/books'' config0 world0)
     = Inr (JStr ''v'') \<and>
   cache (snd (apiWrapper_get json0 (script [] (reply 201 (JStr ''v''))) ''/books'' config0 world0))
     = cache world0"
  by (simp add: run_defs apiWrapper_get_def fetch_get_def)

section \<open>A second read within the time-to-live\<close>

text \<open>
  C1, as the code has it. Take a cached read (\<open>skipCache\<close> unset) that went to the
  network and completed with status 200 and a truthy payload. A later read of the
  same url and params, in any world where the entry stored for the key is still the
  one this read stored and less than \<open>CACHE_DURATION\<close> has passed since it completed,
  returns the identical payload and leaves the world as it is: nothing is sent,
  whatever the server would answer.
\<close>

theorem second_read_from_cache:
  assumes "\<not> cfg_skipCache cfg"
    and "key = cacheKey stringify u cfg"
    and "\<not> truthy (fst (getCachedData key w))"
    and "api srv (api_request GET u JUndefined cfg) (snd (getCachedData key w)) = (Inr r, w2)"
    and "resp_status r = 200"
    and "truthy (resp_data r)"
    and "apiWrapper_get stringify srv u cfg w = (res1, w1)"
    and "cache w' key = cache w1 key"
    and "clock w' - clock w1 < CACHE_DURATION"
  shows "res1 = Inr (resp_data r) \<and>
         apiWrapper_get stringify srv' u cfg w' = (Inr (resp_data r), w') \<and>
         new_events w' (snd (apiWrapper_get stringify srv' u cfg w')) = []"
proof -
  obtain c w0 where g: "getCachedData key w = (c, w0)" by (cases "getCachedData key w")
  have first: "res1 = Inr (resp_data r)" "w1 = setCachedData key (resp_data r) w2"
    using assms g by (auto simp: apiWrapper_get_def fetch_get_def Let_def)
  then have entry: "cache w' key = Some \<lparr>data = resp_data r, timestamp = clock w1\<rparr>"
    using assms(8) by (simp add: setCachedData_def)
  have hit: "getCachedData key w' = (resp_data r, w')"
    using entry assms(9) by (simp add: getCachedData_def)
  have second: "apiWrapper_get stringify srv' u cfg w' = (Inr (resp_data r), w')"
    using assms(1,2,6) hit by (simp add: apiWrapper_get_def fetch_get_def Let_def)
  show ?thesis using first second by (simp add: new_events_def)
qed

theorem second_read_from_cache_witness:
  "fst (apiWrapper_get json0 (script [] (reply 200 (JStr ''v''))) ''/books'' config0 world0)
     = Inr (JStr ''v'') \<and>
   apiWrapper_get json0 (script [] (reply 500 JNull)) ''/books'' config0
     ((snd (apiWrapper_get json0 (script [] (reply 200 (JStr ''v''))) ''/books'' config0 world0))
        \<lparr>clock := 300019\<rparr>)
     = (Inr (JStr ''v''),
        (snd (apiWrapper_get json0 (script [] (reply 200 (JStr ''v''))) ''/books'' config0 world0))
        \<lparr>clock := 300019\<rparr>)"
proof -
  let ?srv = "script [] (reply 200 (JStr ''v''))"
  let ?first = "apiWrapper_get json0 ?srv ''/books'' config0 world0"
  have h1: "\<not> cfg_skipCache config0" by (simp add: config0_def)
  have h2: "''GET_/books_{}'' = cacheKey json0 ''/books'' config0"
    by (simp add: step_defs)
  have h3: "\<not> truthy (fst (getCachedData ''GET_/books_{}'' world0))"
    by (simp add: step_defs)
  have h4: "api ?srv (api_request GET ''/books'' JUndefined config0)
              (snd (getCachedData ''GET_/books_{}'' world0))
            = (Inr \<lparr>resp_status = 200, resp_data = JStr ''v''\<rparr>,
               snd (api ?srv (api_request GET ''/books'' JUndefined config0)
                      (snd (getCachedData ''GET_/books_{}'' world0))))"
    by (simp add: run_defs)
  have h7: "?first = (fst ?first, snd ?first)" by simp
  have h8: "cache ((snd ?first)\<lparr>clock := 300019\<rparr>) ''GET_/books_{}''
              = cache (snd ?first) ''GET_/books_{}''"
    by simp
  have h9: "clock ((snd ?first)\<lparr>clock := 300019\<rparr>) - clock (snd ?first) < CACHE_DURATION"
    by (simp add: apiWrapper_get_def fetch_get_def run_defs)
  show ?thesis
    using second_read_from_cache [OF h1 h2 h3 h4 _ _ h7 h8 h9, of "script [] (reply 500 JNull)"]
    by simp
qed

text \<open>
  The claim fails for a first read that succeeds with a status other than 200 (here
  204), and for one whose payload is falsy (here the number 0 with status 200): the
  second read, made at once, sends a second request.
\<close>

theorem second_read_refetches_counterexample:
  "trace (snd (apiWrapper_get json0 (script [] (reply 204 (JStr ''v''))) ''/books'' config0
      (snd (apiWrapper_get json0 (script [] (reply 204 (JStr ''v''))) ''/books'' config0 world0))))
     = [Api_Sent (api_request GET ''/books'' JUndefined config0),
        Api_Sent (api_request GET ''/books'' JUndefined config0)] \<and>
   trace (snd (apiWrapper_get json0 (script [] (reply 200 (JNum 0))) ''/books'' config0
      (snd (apiWrapper_get json0 (script [] (reply 200 (JNum 0))) ''/books'' config0 world0))))
     = [Api_Sent (api_request GET ''/books'' JUndefined config0),
        Api_Sent (api_request GET ''/books'' JUndefined config0)]"
  by (simp add: run_defs apiWrapper_get_def fetch_get_def)

section \<open>Refresh failure\<close>

text \<open>
  C5, as the code has it. When a call is answered 401 without the retry marker, a
  refresh token is stored and the refresh call is rejected, the client clears the
  token, user and refresh-token slots, sets the location to \<^verbatim>\<open>/login\<close>, sends nothing
  more, and rejects with the error of the refresh call.
\<close>

theorem refresh_failure_handling:
  assumes "\<not> retry req"
    and "ans_status (srv (sent_count w) (request_interceptor w req)) = Some 401"
    and "truthy (getItem w ''refreshToken'')"
    and "settle (refresh_request (getItem w ''refreshToken''))
           (srv (Suc (sent_count w)) (refresh_request (getItem w ''refreshToken'')))
         = Inl refreshError"
  shows "fst (api srv req w) = Inl (Http refreshError) \<and>
         storage (snd (api srv req w)) ''adminToken'' = None \<and>
         storage (snd (api srv req w)) ''adminUser'' = None \<and>
         storage (snd (api srv req w)) ''refreshToken'' = None \<and>
         location (snd (api srv req w)) = ''/login'' \<and>
         new_events w (snd (api srv req w))
           = [Api_Sent (request_interceptor w req),
              Axios_Sent (refresh_request (getItem w ''refreshToken''))]"
proof -
  have "api srv req w = (Inl (Http refreshError), handleAuthFailure (sent2 srv req w))"
    using api_401_refresh_rejected [OF settle_401 [OF assms(2)] _ assms(1,3,4)] by simp
  then show ?thesis by simp
qed

theorem refresh_failure_handling_witness:
  "fst (api (script [reply 401 JNull, reply 500 JNull] (reply 200 JNull))
          (api_request GET ''/books'' JUndefined config0) world1)
     = Inl (Http \<lparr>err_config = refresh_request (JStr ''r1''), err_status = Some 500,
                   err_data = JNull, err_code = ''ERR_BAD_RESPONSE'',
                   err_message = ''Request failed''\<rparr>) \<and>
   storage (snd (api (script [reply 401 JNull, reply 500 JNull] (reply 200 JNull))
          (api_request GET ''/books'' JUndefined config0) world1)) ''adminToken'' = None \<and>
   storage (snd (api (script [reply 401 JNull, reply 500 JNull] (reply 200 JNull))
          (api_request GET ''/books'' JUndefined config0) world1)) ''adminUser'' = None \<and>
   location (snd (api (script [reply 401 JNull, reply 500 JNull] (reply 200 JNull))
          (api_request GET ''/books'' JUndefined config0) world1)) = ''/login'' \<and>
   new_events world1 (snd (api (script [reply 401 JNull, reply 500 JNull] (reply 200 JNull))
          (api_request GET ''/books'' JUndefined config0) world1))
     = [Api_Sent ((api_request GET ''/books'' JUndefined config0)
                    \<lparr>authorization := Some ''Bearer t1''\<rparr>),
        Axios_Sent (refresh_request (JStr ''r1''))]"
  using refresh_failure_handling [of "api_request GET ''/books'' JUndefined config0"
      "script [reply 401 JNull, reply 500 JNull] (reply 200 JNull)" world1
      "\<lparr>err_config = refresh_request (JStr ''r1''), err_status = Some 500,
                   err_data = JNull, err_code = ''ERR_BAD_RESPONSE'',
                   err_message = ''Request failed''\<rparr>"]
  by (simp add: step_defs)

text \<open>
  The error that reaches the caller is the refresh call's (status 500 here), not the
  401 error of the original request.
\<close>

theorem refresh_error_propagated_counterexample:
  "fst (api (script [reply 401 JNull, reply 500 JNull] (reply 200 JNull))
          (api_request GET ''/books'' JUndefined config0) world1)
     = Inl (Http \<lparr>err_config = refresh_request (JStr ''r1''), err_status = Some 500,
                   err_data = JNull, err_code = ''ERR_BAD_RESPONSE'',
                   err_message = ''Request failed''\<rparr>) \<and>
   fst (api (script [reply 401 JNull, reply 500 JNull] (reply 200 JNull))
          (api_request GET ''/books'' JUndefined config0) world1)
     \<noteq> Inl (Http \<lparr>err_config = (api_request GET ''/books'' JUndefined config0)
                      \<lparr>authorization := Some ''Bearer t1'', retry := True\<rparr>,
                   err_status = Some 401,
                   err_data = JNull, err_code = ''ERR_BAD_RESPONSE'',
                   err_message = ''Request failed''\<rparr>)"
  by (simp add: api.simps step_defs)

section \<open>Refresh and retry\<close>

text \<open>
  C2, as the code has it. A call makes at most one refresh attempt and sends its
  request at most twice; a request that carries the retry marker makes no refresh
  attempt. When the first answer is 401, the request carries no marker, a refresh
  token is stored and the refresh call succeeds with a readable token, the client
  makes exactly one refresh attempt and re-issues the request exactly once, with the
  marker set and the new token; if that request is answered 401 too, its 401 error is
  rejected after the session-expired toast, with no further refresh attempt.
\<close>

theorem refresh_at_most_once:
  "length (filter is_axios_sent (new_events w (snd (api srv req w)))) \<le> 1 \<and>
   length (filter is_api_sent (new_events w (snd (api srv req w)))) \<le> 2 \<and>
   (retry req \<longrightarrow> filter is_axios_sent (new_events w (snd (api srv req w))) = []) \<and>
   (\<not> retry req \<and>
    ans_status (srv (sent_count w) (request_interceptor w req)) = Some 401 \<and>
    truthy (getItem w ''refreshToken'') \<and>
    settle (refresh_request (getItem w ''refreshToken''))
      (srv (Suc (sent_count w)) (refresh_request (getItem w ''refreshToken''))) = Inr r \<and>
    get_prop (resp_data r) ''token'' = Some newToken \<longrightarrow>
      filter is_sent (new_events w (snd (api srv req w)))
        = [Api_Sent (request_interceptor w req),
           Axios_Sent (refresh_request (getItem w ''refreshToken'')),
           Api_Sent (retried_request w req newToken)] \<and>
      retry (retried_request w req newToken) \<and>
      (ans_status (srv (Suc (Suc (sent_count w))) (retried_request w req newToken)) = Some 401 \<longrightarrow>
         fst (api srv req w)
           = Inl (Http \<lparr>err_config = retried_request w req newToken, err_status = Some 401,
               err_data = ans_data (srv (Suc (Suc (sent_count w))) (retried_request w req newToken)),
               err_code = ans_code (srv (Suc (Suc (sent_count w))) (retried_request w req newToken)),
               err_message =
                 ans_message (srv (Suc (Suc (sent_count w))) (retried_request w req newToken))\<rparr>) \<and>
         new_events w (snd (api srv req w))
           = [Api_Sent (request_interceptor w req),
              Axios_Sent (refresh_request (getItem w ''refreshToken'')),
              Api_Sent (retried_request w req newToken),
              Toast ''Session expired. Please login again.'']))"
proof (cases rule: api_cases [of w req srv])
  case (resolved r)
  then show ?thesis by (auto simp: settle_401)
next
  case (rejected err)
  then show ?thesis by (auto simp: settle_401)
next
  case (no_token err)
  then show ?thesis by (auto simp: settle_401)
next
  case (refresh_rejected err e)
  then show ?thesis by (auto simp: settle_401)
next
  case (refresh_no_body err r)
  then show ?thesis by (auto simp: settle_401)
next
  case (retry_resolved err r t r3)
  then show ?thesis by (auto simp: settle_401 retried_request_def)
next
  case (retry_rejected err r t err3)
  then show ?thesis by (auto simp: settle_401 retried_request_def toast_text_def dest: settle_InlD)
qed

theorem refresh_at_most_once_witness:
  "filter is_sent (new_events world1
      (snd (api (script [reply 401 JNull, reply 200 (JObj [(''token'', JStr ''t2'')]),
                         reply 401 JNull] (reply 200 JNull))
              (api_request GET ''/books'' JUndefined config0) world1)))
     = [Api_Sent ((api_request GET ''/books'' JUndefined config0)
                    \<lparr>authorization := Some ''Bearer t1''\<rparr>),
        Axios_Sent (refresh_request (JStr ''r1'')),
        Api_Sent ((api_request GET ''/books'' JUndefined config0)
                    \<lparr>authorization := Some ''Bearer t2'', retry := True\<rparr>)] \<and>
   fst (api (script [reply 401 JNull, reply 200 (JObj [(''token'', JStr ''t2'')]),
                     reply 401 JNull] (reply 200 JNull))
          (api_request GET ''/books'' JUndefined config0) world1)
     = Inl (Http \<lparr>err_config = (api_request GET ''/books'' JUndefined config0)
                      \<lparr>authorization := Some ''Bearer t2'', retry := True\<rparr>,
                   err_status = Some 401, err_data = JNull, err_code = ''ERR_BAD_RESPONSE'',
                   err_message = ''Request failed''\<rparr>) \<and>
   new_events world1
      (snd (api (script [reply 401 JNull, reply 200 (JObj [(''token'', JStr ''t2'')]),
                         reply 401 JNull] (reply 200 JNull))
              (api_request GET ''/books'' JUndefined config0) world1))
     = [Api_Sent ((api_request GET ''/books'' JUndefined config0)
                    \<lparr>authorization := Some ''Bearer t1''\<rparr>),
        Axios_Sent (refresh_request (JStr ''r1'')),
        Api_Sent ((api_request GET ''/books'' JUndefined config0)
                    \<lparr>authorization := Some ''Bearer t2'', retry := True\<rparr>),
        Toast ''Session expired. Please login again.'']"
  using refresh_at_most_once [of world1
      "script [reply 401 JNull, reply 200 (JObj [(''token'', JStr ''t2'')]), reply 401 JNull]
         (reply 200 JNull)"
      "api_request GET ''/books'' JUndefined config0"
      "\<lparr>resp_status = 200, resp_data = JObj [(''token'', JStr ''t2'')]\<rparr>" "JStr ''t2''"]
  by (simp add: step_defs)

text \<open>
  With no refresh token stored, a first 401 on a request without the marker leads to
  no refresh attempt and no re-issue.
\<close>

theorem no_refresh_without_token_counterexample:
  "\<not> retry (api_request GET ''/books'' JUndefined config0) \<and>
   ans_status (script [] (reply 401 JNull) (sent_count world0)
      (request_interceptor world0 (api_request GET ''/books'' JUndefined config0))) = Some 401 \<and>
   filter is_axios_sent (new_events world0 (snd (api (script [] (reply 401 JNull))
      (api_request GET ''/books'' JUndefined config0) world0))) = [] \<and>
   filter is_api_sent (new_events world0 (snd (api (script [] (reply 401 JNull))
      (api_request GET ''/books'' JUndefined config0) world0)))
     = [Api_Sent (api_request GET ''/books'' JUndefined config0)]"
  by (simp add: api.simps step_defs)

section \<open>The status switch and its toast\<close>

lemma kind_message_inj: "kind_message k m = kind_message k' m' \<Longrightarrow> k = k'"
  by (cases k; cases k'; simp)

lemma toast_text_table:
  "toast_text err
     = kind_message (spec_kind (err_status err) (err_code err)) (js_string (error_message err))"
  by (simp add: toast_text_def spec_kind_def Let_def)

text \<open>
  C8, as the code has it. The switch picks its toast by the fixed table of status and
  transport error code, each kind shown as the message of its branch. A call that
  resolves raises no toast. A call that is rejected raises exactly one toast, the one
  of the rejected error, unless the refresh call failed: then the switch is not
  reached and no toast is raised. The error rejected is the transport error itself.
\<close>

theorem toast_once_per_switch:
  "toast_text err
     = kind_message (spec_kind (err_status err) (err_code err)) (js_string (error_message err)) \<and>
   (case fst (api srv req w) of
      Inr r \<Rightarrow> filter is_toast (new_events w (snd (api srv req w))) = []
    | Inl (Http e) \<Rightarrow>
        filter is_toast (new_events w (snd (api srv req w)))
          = (if refresh_fails srv req w then [] else [Toast (toast_text e)])
    | Inl (TypeError x) \<Rightarrow>
        refresh_fails srv req w \<and> filter is_toast (new_events w (snd (api srv req w))) = [])"
proof (cases rule: api_cases [of w req srv])
  case (resolved r)
  then show ?thesis by (simp add: toast_text_table)
next
  case (rejected err)
  then show ?thesis
    by (cases "error_handling err (sent1 srv req w) :: response result \<times> world")
       (auto simp: toast_text_table refresh_fails_def error_handling_def Let_def emit_def
             dest!: settle_InlD)
next
  case (no_token err)
  then show ?thesis
    by (auto simp: toast_text_table refresh_fails_def error_handling_def Let_def emit_def)
next
  case (refresh_rejected err e)
  then show ?thesis
    by (auto simp: toast_text_table refresh_fails_def dest!: settle_InlD)
next
  case (refresh_no_body err r)
  then show ?thesis
    by (auto simp: toast_text_table refresh_fails_def dest!: settle_InlD)
next
  case (retry_resolved err r t r3)
  then show ?thesis by (simp add: toast_text_table)
next
  case (retry_rejected err r t err3)
  then show ?thesis
    by (auto simp: toast_text_table refresh_fails_def error_handling_def Let_def emit_def)
qed

theorem toast_once_per_switch_witness:
  "toast_text \<lparr>err_config = api_request GET ''/books'' JUndefined config0, err_status = None,
                err_data = JUndefined, err_code = ''ECONNABORTED'',
                err_message = ''timeout of 15000ms exceeded''\<rparr>
     = kind_message Timeout ''timeout of 15000ms exceeded'' \<and>
   filter is_toast (new_events world1
      (snd (api (script [] (reply 404 (JObj [(''message'', JStr ''no such book'')])))
              (api_request GET ''/books/7'' JUndefined config0) world1)))
     = [Toast ''Resource not found.''] \<and>
   filter is_toast (new_events world1
      (snd (api (script [] (reply 409 (JObj [(''message'', JStr ''already issued'')])))
              (api_request POST ''/issues'' JNull config0) world1)))
     = [Toast ''Conflict: already issued'']"
  using
    toast_once_per_switch [where err =
      "\<lparr>err_config = api_request GET ''/books'' JUndefined config0, err_status = None,
        err_data = JUndefined, err_code = ''ECONNABORTED'',
        err_message = ''timeout of 15000ms exceeded''\<rparr>"
      and srv = "script [] (reply 404 (JObj [(''message'', JStr ''no such book'')]))"
      and req = "api_request GET ''/books/7'' JUndefined config0" and w = world1]
    toast_once_per_switch [where err =
      "\<lparr>err_config = api_request GET ''/books'' JUndefined config0, err_status = None,
        err_data = JUndefined, err_code = ''ECONNABORTED'',
        err_message = ''timeout of 15000ms exceeded''\<rparr>"
      and srv = "script [] (reply 409 (JObj [(''message'', JStr ''already issued'')]))"
      and req = "api_request POST ''/issues'' JNull config0" and w = world1]
  by (simp add: api.simps step_defs spec_kind_def refresh_fails_def)

text \<open>A failed call with no toast at all: the refresh call is rejected.\<close>

theorem refresh_failure_no_toast_counterexample:
  "isl (fst (api (script [reply 401 JNull, reply 500 JNull] (reply 200 JNull))
          (api_request GET ''/books'' JUndefined config0) world1)) \<and>
   filter is_toast (new_events world1
      (snd (api (script [reply 401 JNull, reply 500 JNull] (reply 200 JNull))
          (api_request GET ''/books'' JUndefined config0) world1))) = []"
  by (simp add: api.simps step_defs)

section \<open>Writers of the persisted session\<close>

lemma api_storage_no_401:
  assumes "\<forall>n r. ans_status (srv n r) \<noteq> Some 401"
  shows "storage (snd (api srv req w)) = storage w"
proof -
  have ne: "settle c (srv n r) = Inl err \<Longrightarrow> err_status err \<noteq> Some 401" for c n r err
    using assms settle_InlD[of c "srv n r" err] by simp
  show ?thesis
  proof (cases rule: api_cases [of w req srv])
    case (resolved r)
    then show ?thesis by simp
  next
    case (rejected err)
    with ne show ?thesis by simp
  next
    case (no_token err)
    with ne show ?thesis by simp
  next
    case (refresh_rejected err e)
    with ne show ?thesis by simp
  next
    case (refresh_no_body err r)
    with ne show ?thesis by simp
  next
    case (retry_resolved err r t r3)
    with ne show ?thesis by simp
  next
    case (retry_rejected err r t err3)
    with ne show ?thesis by simp
  qed
qed

lemma error_handling_storage:
  "storage (snd (error_handling err w))
     = (if err_status err = Some 401 then cleared (storage w) else storage w)"
  by (simp add: error_handling_def Let_def emit_def cleared_def)

lemma api_storage_forms:
  "\<exists>t. storage (snd (api srv req w)) \<in>
         {storage w, cleared (storage w), (storage w)(''adminToken'' \<mapsto> t),
          cleared ((storage w)(''adminToken'' \<mapsto> t))}"
proof (cases rule: api_cases [of w req srv])
  case (resolved r)
  then show ?thesis by simp
next
  case (rejected err)
  then show ?thesis by (simp add: error_handling_storage)
next
  case (no_token err)
  then show ?thesis by (simp add: error_handling_storage)
next
  case (refresh_rejected err e)
  then show ?thesis by (simp add: cleared_def)
next
  case (refresh_no_body err r)
  then show ?thesis by (simp add: cleared_def)
next
  case (retry_resolved err r t r3)
  then show ?thesis by auto
next
  case (retry_rejected err r t err3)
  then show ?thesis by (auto simp: error_handling_storage)
qed

lemma sleep_storage [simp]: "storage (sleep ms w) = storage w"
  by (simp add: sleep_def emit_def)

lemma retryRequest_loop_storage:
  "(\<And>w. storage (snd (f w)) = storage w) \<Longrightarrow>
     storage (snd (retryRequest_loop f m d i w)) = storage w"
proof (induction f m d i w rule: retryRequest_loop.induct)
  case (1 requestFunc maxRetries delay i w)
  obtain out w1 where fw: "requestFunc w = (out, w1)" by (cases "requestFunc w")
  have s1: "storage w1 = storage w" using "1.prems"[of w] fw by simp
  show ?case
  proof (cases "i < maxRetries")
    case False
    then show ?thesis by (subst retryRequest_loop.simps) simp
  next
    case True
    note lt = True
    show ?thesis
    proof (cases out)
      case (Inr r)
      with lt fw s1 show ?thesis by (subst retryRequest_loop.simps) simp
    next
      case (Inl e)
      show ?thesis
      proof (cases "i = maxRetries - 1")
        case True
        with lt Inl fw s1 show ?thesis by (subst retryRequest_loop.simps) simp
      next
        case False
        have "storage (snd (retryRequest_loop requestFunc maxRetries delay (i + 1)
                 (sleep (delay * 2 ^ nat i) w1))) = storage (sleep (delay * 2 ^ nat i) w1)"
          by (rule "1.IH"[OF lt fw[symmetric] Inl False]) (rule "1.prems")
        with lt False Inl fw s1 show ?thesis
          by (subst retryRequest_loop.simps) simp
      qed
    qed
  qed
qed

lemma wrappers_storage_no_401:
  assumes "\<forall>n r. ans_status (srv n r) \<noteq> Some 401"
  shows "storage (snd (apiWrapper_get stringify srv u cfg w)) = storage w"
    and "storage (snd (apiWrapper_post srv u body cfg w)) = storage w"
    and "storage (snd (apiWrapper_put srv u body cfg w)) = storage w"
    and "storage (snd (apiWrapper_delete srv u cfg w)) = storage w"
proof -
  note a = api_storage_no_401 [OF assms]
  show "storage (snd (apiWrapper_get stringify srv u cfg w)) = storage w"
  proof -
    have f: "storage (snd (fetch_get k srv u cfg w0)) = storage w0" for k w0
    proof -
      obtain out w2 where q: "api srv (api_request GET u JUndefined cfg) w0 = (out, w2)"
        by (cases "api srv (api_request GET u JUndefined cfg) w0")
      have "storage w2 = storage w0"
        using a [of "api_request GET u JUndefined cfg" w0] q by simp
      then show ?thesis
        using q by (cases out) (simp_all add: fetch_get_def setCachedData_def)
    qed
    obtain c w1 where p: "getCachedData (cacheKey stringify u cfg) w = (c, w1)"
      by (cases "getCachedData (cacheKey stringify u cfg) w")
    have s1: "storage w1 = storage w"
      using p getCachedData_frame(1) [of "cacheKey stringify u cfg" w] by simp
    show ?thesis
      using p s1 f by (simp add: apiWrapper_get_def Let_def)
  qed
  show "storage (snd (apiWrapper_post srv u body cfg w)) = storage w"
  proof -
    obtain out w1 where q: "retryRequest (api srv (api_request POST u body cfg))
                              (cfg_maxRetries cfg) None w = (out, w1)"
      by (cases "retryRequest (api srv (api_request POST u body cfg)) (cfg_maxRetries cfg) None w")
    have "storage (snd (retryRequest (api srv (api_request POST u body cfg))
                          (cfg_maxRetries cfg) None w)) = storage w"
      unfolding retryRequest_def by (rule retryRequest_loop_storage) (rule a)
    then have s1: "storage w1 = storage w" using q by simp
    show ?thesis
      using q s1 by (simp add: apiWrapper_post_def split: sum.splits option.splits)
  qed
  show "storage (snd (apiWrapper_put srv u body cfg w)) = storage w"
  proof -
    obtain out w1 where q: "api srv (api_request PUT u body cfg) w = (out, w1)"
      by (cases "api srv (api_request PUT u body cfg) w")
    then have "storage w1 = storage w" using a [of "api_request PUT u body cfg" w] by simp
    then show ?thesis
      using q by (simp add: apiWrapper_put_def Let_def delete_including_def split: sum.splits)
  qed
  show "storage (snd (apiWrapper_delete srv u cfg w)) = storage w"
  proof -
    obtain out w1 where q: "api srv (api_request DELETE u JUndefined cfg) w = (out, w1)"
      by (cases "api srv (api_request DELETE u JUndefined cfg) w")
    then have "storage w1 = storage w"
      using a [of "api_request DELETE u JUndefined cfg" w] by simp
    then show ?thesis
      using q by (simp add: apiWrapper_delete_def Let_def delete_including_def split: sum.splits)
  qed
qed

text \<open>
  C9, as the code has it. \<open>login\<close> stores the token and user slots and \<open>logout\<close>
  removes them. The HTTP client writes them too, only when a request is answered 401:
  after a call \<^verbatim>\<open>localStorage\<close> is unchanged, or cleared by \<open>handleAuthFailure\<close>, or
  holds a refreshed token, or both. When no request is answered 401, a call through
  \<^verbatim>\<open>api\<close> or through any method of the wrapper leaves \<^verbatim>\<open>localStorage\<close> unchanged.
\<close>

theorem session_slot_writers:
  "storage (snd (login stringify newToken userData sw))
     = (storage (snd sw))(''adminToken'' \<mapsto> js_string newToken,
                          ''adminUser'' \<mapsto> stringify userData) \<and>
   storage (snd (logout sw))
     = (storage (snd sw))(''adminToken'' := None, ''adminUser'' := None) \<and>
   (\<exists>t. storage (snd (api srv req w)) \<in>
         {storage w, cleared (storage w), (storage w)(''adminToken'' \<mapsto> t),
          cleared ((storage w)(''adminToken'' \<mapsto> t))}) \<and>
   ((\<forall>n r. ans_status (srv n r) \<noteq> Some 401) \<longrightarrow>
      storage (snd (api srv req w)) = storage w \<and>
      storage (snd (apiWrapper_get stringify srv u cfg w)) = storage w \<and>
      storage (snd (apiWrapper_post srv u body cfg w)) = storage w \<and>
      storage (snd (apiWrapper_put srv u body cfg w)) = storage w \<and>
      storage (snd (apiWrapper_delete srv u cfg w)) = storage w)"
proof -
  have frame: "(\<forall>n r. ans_status (srv n r) \<noteq> Some 401) \<longrightarrow>
      storage (snd (api srv req w)) = storage w \<and>
      storage (snd (apiWrapper_get stringify srv u cfg w)) = storage w \<and>
      storage (snd (apiWrapper_post srv u body cfg w)) = storage w \<and>
      storage (snd (apiWrapper_put srv u body cfg w)) = storage w \<and>
      storage (snd (apiWrapper_delete srv u cfg w)) = storage w"
    by (simp add: api_storage_no_401 wrappers_storage_no_401)
  show ?thesis
    using api_storage_forms [of srv req w] frame
    by (simp add: login_def logout_def setItem_def removeItem_def)
qed

theorem session_slot_writers_witness:
  "storage (snd (login json0 (JStr ''t1'') (JObj [])
      (\<lparr>isAuthenticated = False, auth_user = JNull, auth_token = JNull\<rparr>, world0)))
     = [''adminToken'' \<mapsto> ''t1'', ''adminUser'' \<mapsto> ''{}''] \<and>
   storage (snd (logout
      (\<lparr>isAuthenticated = True, auth_user = JObj [], auth_token = JStr ''t1''\<rparr>, world1)))
     = [''refreshToken'' \<mapsto> ''r1''] \<and>
   storage (snd (api (script [] (reply 500 JNull))
      (api_request GET ''/books'' JUndefined config0) world1)) = storage world1 \<and>
   storage (snd (apiWrapper_get json0 (script [] (reply 500 JNull)) ''/books'' config0 world1))
     = storage world1 \<and>
   storage (snd (apiWrapper_post (script [] (reply 500 JNull)) ''/books'' JNull config0 world1))
     = storage world1 \<and>
   storage (snd (apiWrapper_put (script [] (reply 500 JNull)) ''/books/1'' JNull config0 world1))
     = storage world1 \<and>
   storage (snd (apiWrapper_delete (script [] (reply 500 JNull)) ''/books/1'' config0 world1))
     = storage world1"
proof -
  have h: "\<forall>n r. ans_status (script [] (reply 500 JNull) n r) \<noteq> Some 401"
    by (simp add: script_def reply_def)
  note t = session_slot_writers [where srv = "script [] (reply 500 JNull)" and w = world1
      and req = "api_request GET ''/books'' JUndefined config0" and stringify = json0
      and cfg = config0 and body = JNull]
  have a: "storage (snd (login json0 (JStr ''t1'') (JObj [])
      (\<lparr>isAuthenticated = False, auth_user = JNull, auth_token = JNull\<rparr>, world0)))
     = [''adminToken'' \<mapsto> ''t1'', ''adminUser'' \<mapsto> ''{}'']"
    using t [where newToken = "JStr ''t1''" and userData = "JObj []"
      and sw = "(\<lparr>isAuthenticated = False, auth_user = JNull, auth_token = JNull\<rparr>, world0)"]
    by (simp add: world0_def json0_def)
  have b: "storage (snd (logout
      (\<lparr>isAuthenticated = True, auth_user = JObj [], auth_token = JStr ''t1''\<rparr>, world1)))
     = [''refreshToken'' \<mapsto> ''r1'']"
    using t [where sw = "(\<lparr>isAuthenticated = True, auth_user = JObj [],
                            auth_token = JStr ''t1''\<rparr>, world1)"]
    by (simp add: world0_def world1_def fun_upd_twist)
  show ?thesis
    using a b h t [where u = "''/books''"] t [where u = "''/books/1''"] by simp
qed

text \<open>
  The response interceptor stores a refreshed token in the token slot, and on a 401
  without refresh token it removes the user slot.
\<close>

theorem client_writes_session_counterexample:
  "storage world1 ''adminToken'' = Some ''t1'' \<and>
   storage (snd (api (script [reply 401 JNull, reply 200 (JObj [(''token'', JStr ''t2'')])]
                        (reply 200 JNull))
      (api_request GET ''/books'' JUndefined config0) world1)) ''adminToken'' = Some ''t2'' \<and>
   storage world1 ''adminUser'' = Some ''admin'' \<and>
   storage (snd (api (script [] (reply 401 JNull))
      (api_request GET ''/books'' JUndefined config0)
      (world1\<lparr>storage := [''adminToken'' \<mapsto> ''t1'', ''adminUser'' \<mapsto> ''admin'']\<rparr>)))
      ''adminUser'' = None"
  by (simp add: api.simps step_defs)

end
